theory Spec2Isabelle
  imports Complex_Main "HOL-Library.Sublist"
begin

section \<open>Interaction matrices of hsML: data model\<close>

text \<open>
  The module \<^verbatim>\<open>hsML/interaction_matrix.py\<close> builds Stark and Zeeman interaction
  matrices over a basis of quantum states. Python floats are idealised as \<^typ>\<open>real\<close>
  (no rounding, no NaN, no infinities), Python ints are \<^typ>\<open>int\<close>, strings are
  \<^typ>\<open>string\<close> restricted to ASCII.

  The state and basis classes live outside this module. Their records follow the
  data model of the specification: a state has the quantum numbers \<open>n\<close>, \<open>n_eff\<close>,
  \<open>L\<close> and the magnetic quantum number (here \<open>state_ML\<close>), and two states are equal
  when all attributes are equal; the basis parameters are only ever rendered with
  \<^verbatim>\<open>str\<close>, so their type is left open.
\<close>

record state =
  n :: int
  n_eff :: real
  L :: int
  state_ML :: int

record 'v params =
  n_min :: 'v
  n_max :: 'v
  L_max :: 'v
  S :: 'v
  params_ML :: 'v
  ML_max :: 'v

record 'v basis =
  states :: "state list"
  params :: "'v params"

type_synonym matrix = "real list list"

record 'v interaction_matrix =
  type :: string
  basis :: "'v basis"
  num_states :: nat
  matrix :: "matrix option"

text \<open>
  The keyword arguments the module reads with \<^verbatim>\<open>kwargs.get(key, default)\<close>: a field
  is \<open>None\<close> when the key is absent. The progress-bar options (\<^verbatim>\<open>tqdm_*\<close>) only
  reach the progress bar and are left out.
\<close>

record kwargs =
  cache_matrices :: "bool option"
  load_matrices :: "bool option"
  save_matrices :: "bool option"
  matrices_dir :: "string option"
  field_angle :: "real option"
  p :: "real option"
  dM_allow :: "int list option"

definition kwargs_get :: "'a option \<Rightarrow> 'a \<Rightarrow> 'a" where
  "kwargs_get v d = (case v of None \<Rightarrow> d | Some x \<Rightarrow> x)"

definition no_kwargs :: kwargs where
  "no_kwargs = \<lparr>cache_matrices = None, load_matrices = None, save_matrices = None,
     matrices_dir = None, field_angle = None, p = None, dM_allow = None\<rparr>"

text \<open>
  Exceptions are values. \<open>NameError\<close> carries the unbound name, \<open>Exception\<close> the
  message of a plain \<^verbatim>\<open>raise Exception(...)\<close>, \<open>IndexError\<close> an out-of-range read
  of the state list, \<open>IOError\<close> the path of a file that is not there, \<open>ValueError\<close>
  NumPy's refusal to read a stored entry that is not a numeric array, and \<open>External\<close>
  stands for whatever the radial integral of the \<^verbatim>\<open>numerov\<close> module may raise.
\<close>

datatype error =
    NameError string
  | Exception string
  | IndexError
  | IOError string
  | ValueError
  | External string

text \<open>
  The radial integral \<^verbatim>\<open>radial_overlap(n_eff_1, L_1, n_eff_2, L_2, p=p)\<close> is imported
  from another module: it is a parameter of the model, and it may fail.
\<close>

type_synonym radial = "real \<Rightarrow> int \<Rightarrow> real \<Rightarrow> int \<Rightarrow> real \<Rightarrow> error + real"

section \<open>Numeric helpers\<close>

text \<open>
  \<^verbatim>\<open>np.mod(x, y)\<close> on floats is the floored remainder \<open>x - floor (x / y) * y\<close>.
\<close>

definition np_mod :: "real \<Rightarrow> real \<Rightarrow> real" where
  "np_mod x y = x - of_int \<lfloor>x / y\<rfloor> * y"

text \<open>
  \<^verbatim>\<open>x ** 0.5\<close> on a float. For \<open>0 \<le> x\<close> it is the square root. For a negative
  radicand Python leaves the reals (the power is a complex number), which this
  real-valued model does not represent. No result below depends on the value chosen
  there: the proofs of the general statements leave \<open>pow_half\<close> folded, and the
  examples evaluate it at non-negative radicands only.
\<close>

definition pow_half :: "real \<Rightarrow> real" where
  "pow_half x = sqrt x"

section \<open>The Stark term\<close>

text \<open>
  The first block of \<^verbatim>\<open>angular_overlap\<close>, entered when the field has a parallel
  component. It receives the running value of \<^verbatim>\<open>overlap\<close> and returns the updated
  one. The integer quotients are Python's true division of two ints.
\<close>

definition parallel_branch ::
  "real \<Rightarrow> real \<Rightarrow> int \<Rightarrow> int \<Rightarrow> int \<Rightarrow> int \<Rightarrow> int list \<Rightarrow> real" where
  "parallel_branch overlap frac_para L_1 M_1 dL dM allowed =
     (let L = L_1; M = M_1; dM_allow = allowed in
      if dM = 0 \<and> dM \<in> set dM_allow then
        (if dL = 1 then
           overlap + frac_para * (pow_half (of_int ((L + 1)\<^sup>2 - M\<^sup>2) / of_int ((2 * L + 3) * (2 * L + 1))))
         else if dL = - 1 then
           overlap + frac_para * (pow_half (of_int (L\<^sup>2 - M\<^sup>2) / of_int ((2 * L + 1) * (2 * L - 1))))
         else overlap)
      else if dM = 1 \<and> dM \<in> set dM_allow then
        (if dL = 1 then
           overlap + frac_para * (- pow_half (of_int ((L + M + 2) * (L + M + 1)) / of_int (2 * (2 * L + 3) * (2 * L + 1))))
         else if dL = - 1 then
           overlap + frac_para * (pow_half (of_int ((L - M) * (L - M - 1)) / of_int (2 * (2 * L + 1) * (2 * L - 1))))
         else overlap)
      else if dM = - 1 \<and> dM \<in> set dM_allow then
        (if dL = 1 then
           overlap + frac_para * (pow_half (of_int ((L - M + 2) * (L - M + 1)) / of_int (2 * (2 * L + 3) * (2 * L + 1))))
         else if dL = - 1 then
           overlap + frac_para * (- pow_half (of_int ((L + M) * (L + M - 1)) / of_int (2 * (2 * L + 1) * (2 * L - 1))))
         else overlap)
      else overlap)"

text \<open>
  The second block, entered when the field has a perpendicular component. The sign
  factor \<^verbatim>\<open>(-1)**k\<close> with an integer \<open>k\<close> of either sign is \<open>(- 1) powi k\<close>.
\<close>

definition perpendicular_branch ::
  "real \<Rightarrow> real \<Rightarrow> int \<Rightarrow> int \<Rightarrow> int \<Rightarrow> int \<Rightarrow> real" where
  "perpendicular_branch overlap frac_perp L_1 M_1 dL dM =
     (let L = L_1; M = M_1 in
      if dM = 1 then
        (if dL = 1 then
           overlap + frac_perp * ((0.5 * (- 1) powi (M - 2 * L)) *
             pow_half (of_int ((L + M + 1) * (L + M + 2)) / of_int ((2 * L + 1) * (2 * L + 3))))
         else if dL = - 1 then
           overlap + frac_perp * (- (0.5 * (- 1) powi (- M + 2 * L)) *
             pow_half (of_int ((L - M - 1) * (L - M)) / of_int ((2 * L - 1) * (2 * L + 1))))
         else overlap)
      else if dM = - 1 then
        (if dL = 1 then
           overlap + frac_perp * ((0.5 * (- 1) powi (M - 2 * L)) *
             pow_half (of_int ((L - M + 1) * (L - M + 2)) / of_int ((2 * L + 1) * (2 * L + 3))))
         else if dL = - 1 then
           overlap + frac_perp * (- (0.5 * (- 1) powi (- M + 2 * L)) *
             pow_half (of_int ((L + M - 1) * (L + M)) / of_int ((2 * L - 1) * (2 * L + 1))))
         else overlap)
      else overlap)"

definition angular_overlap :: "int \<Rightarrow> int \<Rightarrow> int \<Rightarrow> int \<Rightarrow> kwargs \<Rightarrow> real" where
  "angular_overlap L_1 L_2 M_1 M_2 kw =
     (let dL = L_2 - L_1;
          dM = M_2 - M_1;
          L = L_1; M = M_1;
          field_angle = kwargs_get (field_angle kw) 0.0;
          frac_para = (cos (field_angle * (pi / 180)))\<^sup>2;
          frac_perp = (sin (field_angle * (pi / 180)))\<^sup>2;
          dM_allow = kwargs_get (dM_allow kw) [0];
          overlap = 0.0;
          overlap = (if \<not> np_mod field_angle 180.0 = 90.0
                     then parallel_branch overlap frac_para L M dL dM dM_allow else overlap);
          overlap = (if \<not> np_mod field_angle 180.0 = 0.0
                     then perpendicular_branch overlap frac_perp L M dL dM else overlap)
      in overlap)"

definition stark_interaction :: "radial \<Rightarrow> state \<Rightarrow> state \<Rightarrow> kwargs \<Rightarrow> error + real" where
  "stark_interaction radial_overlap state_1 state_2 kw =
     (let dL = L state_2 - L state_1;
          dM = state_ML state_2 - state_ML state_1
      in if \<bar>dL\<bar> = 1 \<and> \<bar>dM\<bar> \<le> 1 then
           (let p = kwargs_get (p kw) 1.0;
                a = angular_overlap (L state_1) (L state_2) (state_ML state_1) (state_ML state_2) kw
            in case radial_overlap (n_eff state_1) (L state_1) (n_eff state_2) (L state_2) p of
                 Inl e \<Rightarrow> Inl e
               | Inr r \<Rightarrow> Inr (a * r))
         else Inr 0.0)"

section \<open>The Zeeman term and the dispatch\<close>

definition zeeman_interaction :: "state \<Rightarrow> state \<Rightarrow> real" where
  "zeeman_interaction state_1 state_2 =
     (if state_1 = state_2 then of_int (state_ML state_1) else 0.0)"

definition not_recognised :: "string \<Rightarrow> string" where
  "not_recognised t = ''Interaction term '' @ [CHR 0x27] @ t @ [CHR 0x27] @ '' is not recognised.''"

definition interaction_term ::
  "radial \<Rightarrow> 'v interaction_matrix \<Rightarrow> state \<Rightarrow> state \<Rightarrow> kwargs \<Rightarrow> error + real" where
  "interaction_term radial_overlap self state_1 state_2 kw =
     (if type self = ''stark'' then stark_interaction radial_overlap state_1 state_2 kw
      else if type self = ''zeeman'' then Inr (zeeman_interaction state_1 state_2)
      else Inl (Exception (not_recognised (type self))))"

section \<open>Assembling the matrix\<close>

definition zeros :: "nat \<Rightarrow> matrix" where
  "zeros k = replicate k (replicate k 0)"

text \<open>
  The inner loop \<^verbatim>\<open>for j in range(i, num_states)\<close>: the term is stored at \<open>(i, j)\<close>
  and the cell just written is copied to \<open>(j, i)\<close>. An exception leaves the loop with
  the matrix as it is at that moment.
\<close>

fun row_loop ::
  "(state \<Rightarrow> state \<Rightarrow> error + real) \<Rightarrow> state list \<Rightarrow> nat \<Rightarrow> nat list \<Rightarrow> matrix
     \<Rightarrow> matrix \<times> error option" where
  "row_loop term_of sts i [] m = (m, None)"
| "row_loop term_of sts i (j # js) m =
     (if i < length sts \<and> j < length sts then
        (case term_of (sts ! i) (sts ! j) of
           Inl e \<Rightarrow> (m, Some e)
         | Inr v \<Rightarrow>
             (let m1 = m[i := (m ! i)[j := v]];
                  m2 = m1[j := (m1 ! j)[i := m1 ! i ! j]]
              in row_loop term_of sts i js m2))
      else (m, Some IndexError))"

text \<open>The outer loop \<^verbatim>\<open>for i in trange(num_states)\<close>.\<close>

fun rows_loop ::
  "(state \<Rightarrow> state \<Rightarrow> error + real) \<Rightarrow> state list \<Rightarrow> nat \<Rightarrow> nat list \<Rightarrow> matrix
     \<Rightarrow> matrix \<times> error option" where
  "rows_loop term_of sts k [] m = (m, None)"
| "rows_loop term_of sts k (i # is) m =
     (case row_loop term_of sts i [i..<k] m of
        (m', Some e) \<Rightarrow> (m', Some e)
      | (m', None) \<Rightarrow> rows_loop term_of sts k is m')"

text \<open>
  \<^verbatim>\<open>populate_interaction_matrix\<close> returns the instance as the call leaves it, the
  lines it printed, and the exception it raised, if any. Inside this method the
  cache operations are called as the bare names \<^verbatim>\<open>check_matrix\<close>, \<^verbatim>\<open>load_matrix\<close> and
  \<^verbatim>\<open>save_matrix\<close>; the module binds no such names (they are methods of the class),
  so reaching one of these calls raises \<open>NameError\<close>.
\<close>

definition populate_interaction_matrix ::
  "radial \<Rightarrow> 'v interaction_matrix \<Rightarrow> kwargs
     \<Rightarrow> 'v interaction_matrix \<times> string list \<times> error option" where
  "populate_interaction_matrix radial_overlap self kw =
     (let cache = kwargs_get (cache_matrices kw) True in
      if matrix self = None \<or> cache = False then
        (if kwargs_get (load_matrices kw) False then
           (self, [], Some (NameError ''check_matrix''))
         else
           (case rows_loop (\<lambda>s1 s2. interaction_term radial_overlap self s1 s2 kw)
                   (states (basis self)) (num_states self) [0..<num_states self]
                   (zeros (num_states self)) of
              (m, Some e) \<Rightarrow> (self\<lparr>matrix := Some m\<rparr>, [], Some e)
            | (m, None) \<Rightarrow>
                (if kwargs_get (save_matrices kw) False then
                   (self\<lparr>matrix := Some m\<rparr>, [], Some (NameError ''save_matrix''))
                 else (self\<lparr>matrix := Some m\<rparr>, [], None))))
      else (self, [''Using cached '' @ type self @ '' matrix''], None))"

text \<open>
  \<^verbatim>\<open>str.lower\<close> on ASCII text, and the constructor: when the constructor raises, no
  instance reaches the caller.
\<close>

definition lower_char :: "char \<Rightarrow> char" where
  "lower_char c = (let k = (of_char c :: nat) in if 65 \<le> k \<and> k \<le> 90 then char_of (k + 32) else c)"

definition lower :: "string \<Rightarrow> string" where
  "lower s = map lower_char s"

definition init ::
  "radial \<Rightarrow> string \<Rightarrow> 'v basis \<Rightarrow> kwargs \<Rightarrow> error + ('v interaction_matrix \<times> string list)" where
  "init radial_overlap matrix_type bas kw =
     (let self = \<lparr>type = lower matrix_type, basis = bas,
                  num_states = length (states bas), matrix = None\<rparr>
      in case populate_interaction_matrix radial_overlap self kw of
           (self', out, None) \<Rightarrow> Inr (self', out)
         | (self', out, Some e) \<Rightarrow> Inl e)"

section \<open>Cache files\<close>

text \<open>
  \<^verbatim>\<open>str\<close> of a basis parameter and \<^verbatim>\<open>'{}'.format\<close> of the field angle are
  parameters (\<open>str\<close>, \<open>fmt\<close>): how Python prints a float is outside the model.
\<close>

definition filename :: "('v \<Rightarrow> string) \<Rightarrow> 'v interaction_matrix \<Rightarrow> string" where
  "filename str self =
     ''n='' @ str (n_min (params (basis self))) @ ''-'' @ str (n_max (params (basis self))) @ ''_'' @
     ''L_max='' @ str (L_max (params (basis self))) @ ''_'' @
     ''S='' @ str (S (params (basis self))) @ ''_'' @
     ''ML='' @ str (params_ML (params (basis self))) @ ''_'' @
     ''ML_max='' @ str (ML_max (params (basis self)))"

text \<open>
  The name each of the three methods builds before it touches the disk.
  \<^verbatim>\<open>save_matrix\<close> does not add the extension itself.
\<close>

definition save_name ::
  "('v \<Rightarrow> string) \<Rightarrow> (real \<Rightarrow> string) \<Rightarrow> 'v interaction_matrix \<Rightarrow> kwargs \<Rightarrow> string" where
  "save_name str fmt self kw =
     (let filename = type self @ ''_'' @ filename str self;
          filename = (if type self = ''stark''
                      then filename @ ''_angle_'' @ fmt (kwargs_get (field_angle kw) 0.0)
                      else filename)
      in kwargs_get (matrices_dir kw) ''./'' @ filename)"

definition load_name ::
  "('v \<Rightarrow> string) \<Rightarrow> (real \<Rightarrow> string) \<Rightarrow> 'v interaction_matrix \<Rightarrow> kwargs \<Rightarrow> string" where
  "load_name str fmt self kw =
     (let filename = type self @ ''_'' @ filename str self;
          filename = (if type self = ''stark''
                      then filename @ ''_angle_'' @ fmt (kwargs_get (field_angle kw) 0.0)
                      else filename);
          filename = filename @ ''.npz''
      in kwargs_get (matrices_dir kw) ''./'' @ filename)"

definition check_name ::
  "('v \<Rightarrow> string) \<Rightarrow> (real \<Rightarrow> string) \<Rightarrow> 'v interaction_matrix \<Rightarrow> kwargs \<Rightarrow> string" where
  "check_name str fmt self kw =
     (let filename = type self @ ''_'' @ filename str self;
          filename = (if type self = ''stark''
                      then filename @ ''_angle_'' @ fmt (kwargs_get (field_angle kw) 0.0)
                      else filename);
          filename = filename @ ''.npz''
      in kwargs_get (matrices_dir kw) ''./'' @ filename)"

text \<open>
  The disk is a map from paths to the stored entry \<^verbatim>\<open>matrix\<close> (directories are not
  modelled). The entry is \<open>Some m\<close> for a numeric array and \<open>None\<close> when the instance
  held no matrix: NumPy then stores an object array, which \<^verbatim>\<open>np.load\<close> refuses to
  hand out (\<open>ValueError\<close>). \<^verbatim>\<open>np.savez_compressed(file, ...)\<close> is NumPy's: as its
  documentation states, the extension \<^verbatim>\<open>.npz\<close> is appended to a file name that does
  not already end with it.

  \<^verbatim>\<open>load_matrix\<close> returns the lines it printed together with its result: a missing
  file raises before anything is printed, an unreadable entry after the two lines.
\<close>

type_synonym disk = "string \<rightharpoonup> matrix option"

definition savez_compressed :: "string \<Rightarrow> matrix option \<Rightarrow> disk \<Rightarrow> disk" where
  "savez_compressed file mat d =
     (let target = (if suffix ''.npz'' file then file else file @ ''.npz'')
      in d(target \<mapsto> mat))"

definition save_matrix ::
  "('v \<Rightarrow> string) \<Rightarrow> (real \<Rightarrow> string) \<Rightarrow> 'v interaction_matrix \<Rightarrow> kwargs \<Rightarrow> disk
     \<Rightarrow> disk \<times> string list" where
  "save_matrix str fmt self kw d =
     (let path = save_name str fmt self kw
      in (savez_compressed path (matrix self) d,
          [''Saved '' @ type self @ '' matrix as, '', [CHR 0x09] @ '' '' @ path]))"

definition load_matrix ::
  "('v \<Rightarrow> string) \<Rightarrow> (real \<Rightarrow> string) \<Rightarrow> 'v interaction_matrix \<Rightarrow> kwargs \<Rightarrow> disk
     \<Rightarrow> string list \<times> (error + matrix)" where
  "load_matrix str fmt self kw d =
     (let path = load_name str fmt self kw
      in case d path of
           None \<Rightarrow> ([], Inl (IOError path))
         | Some mat \<Rightarrow>
             ([''Loaded '' @ type self @ '' matrix from, '', [CHR 0x09] @ '' '' @ path],
              case mat of None \<Rightarrow> Inl ValueError | Some m \<Rightarrow> Inr m))"

definition check_matrix ::
  "('v \<Rightarrow> string) \<Rightarrow> (real \<Rightarrow> string) \<Rightarrow> 'v interaction_matrix \<Rightarrow> kwargs \<Rightarrow> disk \<Rightarrow> bool" where
  "check_matrix str fmt self kw d = (d (check_name str fmt self kw) \<noteq> None)"

section \<open>Auxiliary notions\<close>

text \<open>
  A matrix with \<open>k\<close> rows of length \<open>k\<close>, the write of one cell, and the two writes
  of one step of the inner loop taken together.
\<close>

definition square :: "nat \<Rightarrow> matrix \<Rightarrow> bool" where
  "square k m = (length m = k \<and> (\<forall>i<k. length (m ! i) = k))"

definition cell_write :: "matrix \<Rightarrow> nat \<Rightarrow> nat \<Rightarrow> real \<Rightarrow> matrix" where
  "cell_write m i j v = m[i := (m ! i)[j := v]]"

definition mirror_write :: "matrix \<Rightarrow> nat \<Rightarrow> nat \<Rightarrow> real \<Rightarrow> matrix" where
  "mirror_write m i j v =
     (let m1 = m[i := (m ! i)[j := v]]; m2 = m1[j := (m1 ! j)[i := m1 ! i ! j]] in m2)"

definition symmetric :: "nat \<Rightarrow> matrix \<Rightarrow> bool" where
  "symmetric k m = (\<forall>i<k. \<forall>j<k. m ! i ! j = m ! j ! i)"

text \<open>
  The instance as the constructor has set it up when it calls
  \<^verbatim>\<open>populate_interaction_matrix\<close>.
\<close>

definition new_instance :: "string \<Rightarrow> 'v basis \<Rightarrow> 'v interaction_matrix" where
  "new_instance matrix_type bas =
     \<lparr>type = lower matrix_type, basis = bas, num_states = length (states bas), matrix = None\<rparr>"

text \<open>
  The last component of the name that \<^verbatim>\<open>save_matrix\<close> builds: the printed field
  angle for a Stark matrix, the last basis parameter otherwise.
\<close>

definition last_part :: "('v \<Rightarrow> string) \<Rightarrow> (real \<Rightarrow> string) \<Rightarrow> 'v interaction_matrix \<Rightarrow> kwargs \<Rightarrow> string" where
  "last_part str fmt self kw =
     (if type self = ''stark'' then fmt (kwargs_get (field_angle kw) 0.0)
      else str (ML_max (params (basis self))))"

text \<open>
  Concrete inputs for the examples: a radial integral that always raises and one that
  is constantly \<open>1\<close>; the two-state basis of the specification's scenario
  (\<open>L = 0, 1\<close>, magnetic quantum numbers \<open>0, 0\<close>, \<open>n_eff = 10.0\<close>) and an empty
  basis; an instance that already holds a matrix; \<^verbatim>\<open>str\<close> on Python ints; an
  instance with integer basis parameters.
\<close>

definition failing_radial :: radial where
  "failing_radial n1 l1 n2 l2 q = Inl (External ''numerov'')"

definition const_radial :: radial where
  "const_radial n1 l1 n2 l2 q = Inr 1"

definition two_states :: "unit basis" where
  "two_states = \<lparr>states = [\<lparr>n = 10, n_eff = 10.0, L = 0, state_ML = 0\<rparr>,
                            \<lparr>n = 10, n_eff = 10.0, L = 1, state_ML = 0\<rparr>],
                 params = \<lparr>n_min = (), n_max = (), L_max = (), S = (), params_ML = (), ML_max = ()\<rparr>\<rparr>"

definition no_states :: "unit basis" where
  "no_states = \<lparr>states = [],
                 params = \<lparr>n_min = (), n_max = (), L_max = (), S = (), params_ML = (), ML_max = ()\<rparr>\<rparr>"

definition held_instance :: "unit interaction_matrix" where
  "held_instance = \<lparr>type = ''stark'', basis = two_states, num_states = 2,
                     matrix = Some [[0, 7], [7, 0]]\<rparr>"

definition load_and_save :: kwargs where
  "load_and_save = no_kwargs\<lparr>load_matrices := Some True, save_matrices := Some True\<rparr>"

fun digits :: "nat \<Rightarrow> string" where
  "digits k = (if k < 10 then [char_of (48 + k)] else digits (k div 10) @ [char_of (48 + k mod 10)])"

definition str_int :: "int \<Rightarrow> string" where
  "str_int i = (if i < 0 then ''-'' @ digits (nat (- i)) else digits (nat i))"

definition helium :: "int interaction_matrix" where
  "helium = \<lparr>type = ''stark'',
             basis = \<lparr>states = [\<lparr>n = 10, n_eff = 10.0, L = 0, state_ML = 0\<rparr>,
                                \<lparr>n = 10, n_eff = 10.0, L = 1, state_ML = 0\<rparr>],
                      params = \<lparr>n_min = 2, n_max = 15, L_max = 4, S = 0, params_ML = 0, ML_max = 1\<rparr>\<rparr>,
             num_states = 2, matrix = Some [[0, 3], [3, 0]]\<rparr>"

section \<open>The assembly loops\<close>

lemma square_zeros: "square k (zeros k)"
  by (simp add: square_def zeros_def)

lemma zeros_nth: "i < k \<Longrightarrow> j < k \<Longrightarrow> zeros k ! i ! j = 0"
  by (simp add: zeros_def)

lemma square_cell_write: "square k m \<Longrightarrow> square k (cell_write m i j v)"
proof (cases "i < length m")
  case True
  assume "square k m"
  then show ?thesis using True by (auto simp: square_def cell_write_def nth_list_update)
next
  case False
  assume "square k m"
  then show ?thesis using False by (simp add: square_def cell_write_def)
qed

lemma nth_cell_write:
  "square k m \<Longrightarrow> i < k \<Longrightarrow> j < k \<Longrightarrow> a < k \<Longrightarrow> b < k \<Longrightarrow>
   cell_write m i j v ! a ! b = (if a = i \<and> b = j then v else m ! a ! b)"
  by (auto simp: square_def cell_write_def nth_list_update)

lemma mirror_write_eq:
  "square k m \<Longrightarrow> i < k \<Longrightarrow> j < k \<Longrightarrow>
   mirror_write m i j v = cell_write (cell_write m i j v) j i v"
  using nth_cell_write[of k m i j i j v]
  by (simp add: mirror_write_def Let_def cell_write_def)

lemma square_mirror_write: "square k m \<Longrightarrow> i < k \<Longrightarrow> j < k \<Longrightarrow> square k (mirror_write m i j v)"
  by (simp add: mirror_write_eq square_cell_write)

lemma nth_mirror_write:
  "square k m \<Longrightarrow> i < k \<Longrightarrow> j < k \<Longrightarrow> a < k \<Longrightarrow> b < k \<Longrightarrow>
   mirror_write m i j v ! a ! b = (if (a = i \<and> b = j) \<or> (a = j \<and> b = i) then v else m ! a ! b)"
proof -
  assume sq: "square k m" and i: "i < k" and j: "j < k" and a: "a < k" and b: "b < k"
  have sq1: "square k (cell_write m i j v)" using sq by (rule square_cell_write)
  have e1: "mirror_write m i j v ! a ! b = cell_write (cell_write m i j v) j i v ! a ! b"
    using sq i j by (simp add: mirror_write_eq)
  have e2: "cell_write (cell_write m i j v) j i v ! a ! b =
      (if a = j \<and> b = i then v else cell_write m i j v ! a ! b)"
    using sq1 j i a b by (rule nth_cell_write)
  have e3: "cell_write m i j v ! a ! b = (if a = i \<and> b = j then v else m ! a ! b)"
    using sq i j a b by (rule nth_cell_write)
  show ?thesis
  proof (cases "a = j \<and> b = i")
    case True
    then show ?thesis using e1 e2 by presburger
  next
    case False
    then show ?thesis using e1 e2 e3 by presburger
  qed
qed

lemma row_loop_Cons:
  "row_loop f sts i (j # js) m =
     (if i < length sts \<and> j < length sts then
        (case f (sts ! i) (sts ! j) of
           Inl e \<Rightarrow> (m, Some e)
         | Inr v \<Rightarrow> row_loop f sts i js (mirror_write m i j v))
      else (m, Some IndexError))"
  by (simp add: mirror_write_def Let_def split: sum.splits)

text \<open>
  What the inner loop leaves behind when it ends without an exception: every column
  \<open>j\<close> it visited holds the term at \<open>(i, j)\<close> and its mirror image at \<open>(j, i)\<close>, and no
  other cell has changed.
\<close>

lemma row_loop_spec:
  "square k m \<Longrightarrow> i < k \<Longrightarrow> \<forall>j\<in>set js. j < k \<Longrightarrow> row_loop f sts i js m = (m', None) \<Longrightarrow>
   square k m' \<and>
   (\<forall>j\<in>set js. f (sts ! i) (sts ! j) = Inr (m' ! i ! j) \<and> m' ! j ! i = m' ! i ! j) \<and>
   (\<forall>a<k. \<forall>b<k. \<not> (a = i \<and> b \<in> set js) \<and> \<not> (b = i \<and> a \<in> set js) \<longrightarrow> m' ! a ! b = m ! a ! b)"
proof (induction js arbitrary: m)
  case Nil
  then show ?case by simp
next
  case (Cons j js)
  from Cons.prems(3) have jk: "j < k" and jsk: "\<forall>x\<in>set js. x < k" by simp_all
  from Cons.prems(4) obtain v where
    fv: "f (sts ! i) (sts ! j) = Inr v" and
    rest: "row_loop f sts i js (mirror_write m i j v) = (m', None)"
    by (auto simp: row_loop_Cons simp del: row_loop.simps split: if_splits sum.splits)
  let ?m2 = "mirror_write m i j v"
  have sq2: "square k ?m2" using Cons.prems(1,2) jk by (rule square_mirror_write)
  note IH = Cons.IH[OF sq2 Cons.prems(2) jsk rest]
  have sq': "square k m'" using IH by simp
  have later: "\<forall>x\<in>set js. f (sts ! i) (sts ! x) = Inr (m' ! i ! x) \<and> m' ! x ! i = m' ! i ! x"
    using IH by simp
  have frame: "\<And>a b. a < k \<Longrightarrow> b < k \<Longrightarrow> \<not> (a = i \<and> b \<in> set js) \<Longrightarrow> \<not> (b = i \<and> a \<in> set js)
      \<Longrightarrow> m' ! a ! b = ?m2 ! a ! b"
    using IH by blast
  have here: "f (sts ! i) (sts ! j) = Inr (m' ! i ! j) \<and> m' ! j ! i = m' ! i ! j"
  proof (cases "j \<in> set js")
    case True
    then show ?thesis using later by blast
  next
    case False
    have "m' ! i ! j = ?m2 ! i ! j" using frame[of i j] False Cons.prems(2) jk by blast
    moreover have "m' ! j ! i = ?m2 ! j ! i" using frame[of j i] False Cons.prems(2) jk by blast
    moreover have "?m2 ! i ! j = v" "?m2 ! j ! i = v"
      using nth_mirror_write[OF Cons.prems(1,2) jk] Cons.prems(2) jk by simp_all
    ultimately show ?thesis using fv by simp
  qed
  have frame': "\<forall>a<k. \<forall>b<k. \<not> (a = i \<and> b \<in> set (j # js)) \<and> \<not> (b = i \<and> a \<in> set (j # js))
      \<longrightarrow> m' ! a ! b = m ! a ! b"
  proof (intro allI impI)
    fix a b assume a: "a < k" and b: "b < k"
      and nt: "\<not> (a = i \<and> b \<in> set (j # js)) \<and> \<not> (b = i \<and> a \<in> set (j # js))"
    have "m' ! a ! b = ?m2 ! a ! b" using frame[OF a b] nt by auto
    also have "\<dots> = m ! a ! b"
      using nth_mirror_write[OF Cons.prems(1,2) jk a b] nt by auto
    finally show "m' ! a ! b = m ! a ! b" .
  qed
  show ?case using sq' later here frame' by simp
qed

text \<open>
  The same for the outer loop over distinct rows: later rows never write a cell of an
  earlier one.
\<close>

lemma rows_loop_spec:
  "square k m \<Longrightarrow> distinct is \<Longrightarrow> \<forall>i\<in>set is. i < k \<Longrightarrow> rows_loop f sts k is m = (m', None) \<Longrightarrow>
   square k m' \<and>
   (\<forall>i\<in>set is. \<forall>j. i \<le> j \<and> j < k \<longrightarrow>
        f (sts ! i) (sts ! j) = Inr (m' ! i ! j) \<and> m' ! j ! i = m' ! i ! j) \<and>
   (\<forall>a<k. \<forall>b<k. \<not> (a \<in> set is \<and> a \<le> b) \<and> \<not> (b \<in> set is \<and> b \<le> a) \<longrightarrow> m' ! a ! b = m ! a ! b)"
proof (induction "is" arbitrary: m)
  case Nil
  then show ?case by simp
next
  case (Cons i "is")
  from Cons.prems(3) have ik: "i < k" and isk: "\<forall>x\<in>set is. x < k" by simp_all
  from Cons.prems(2) have fresh: "i \<notin> set is" and dist: "distinct is" by simp_all
  from Cons.prems(4) obtain m1 where
    row: "row_loop f sts i [i..<k] m = (m1, None)" and
    rest: "rows_loop f sts k is m1 = (m', None)"
    by (auto split: prod.splits option.splits)
  have cols: "\<forall>j\<in>set [i..<k]. j < k" by simp
  note R = row_loop_spec[OF Cons.prems(1) ik cols row]
  have sq1: "square k m1" using R by simp
  have rowi: "\<And>j. i \<le> j \<Longrightarrow> j < k \<Longrightarrow>
      f (sts ! i) (sts ! j) = Inr (m1 ! i ! j) \<and> m1 ! j ! i = m1 ! i ! j"
    using R by simp
  have frame1: "\<And>a b. a < k \<Longrightarrow> b < k \<Longrightarrow> \<not> (a = i \<and> i \<le> b) \<Longrightarrow> \<not> (b = i \<and> i \<le> a)
      \<Longrightarrow> m1 ! a ! b = m ! a ! b"
    using R by simp
  note IH = Cons.IH[OF sq1 dist isk rest]
  have sq': "square k m'" using IH by simp
  have later: "\<forall>x\<in>set is. \<forall>j. x \<le> j \<and> j < k \<longrightarrow>
      f (sts ! x) (sts ! j) = Inr (m' ! x ! j) \<and> m' ! j ! x = m' ! x ! j"
    using IH by simp
  have frame2: "\<And>a b. a < k \<Longrightarrow> b < k \<Longrightarrow> \<not> (a \<in> set is \<and> a \<le> b) \<Longrightarrow> \<not> (b \<in> set is \<and> b \<le> a)
      \<Longrightarrow> m' ! a ! b = m1 ! a ! b"
    using IH by blast
  have here: "\<forall>j. i \<le> j \<and> j < k \<longrightarrow>
      f (sts ! i) (sts ! j) = Inr (m' ! i ! j) \<and> m' ! j ! i = m' ! i ! j"
  proof (intro allI impI)
    fix j assume ij: "i \<le> j \<and> j < k"
    have n1: "\<not> (i \<in> set is \<and> i \<le> j)" using fresh by simp
    have n2: "\<not> (j \<in> set is \<and> j \<le> i)" using fresh ij by auto
    have "m' ! i ! j = m1 ! i ! j" using frame2[OF ik _ n1 n2] ij by simp
    moreover have "m' ! j ! i = m1 ! j ! i" using frame2[OF _ ik n2 n1] ij by simp
    ultimately show "f (sts ! i) (sts ! j) = Inr (m' ! i ! j) \<and> m' ! j ! i = m' ! i ! j"
      using rowi[of j] ij by simp
  qed
  have frame': "\<forall>a<k. \<forall>b<k. \<not> (a \<in> set (i # is) \<and> a \<le> b) \<and> \<not> (b \<in> set (i # is) \<and> b \<le> a)
      \<longrightarrow> m' ! a ! b = m ! a ! b"
  proof (intro allI impI)
    fix a b assume a: "a < k" and b: "b < k"
      and nt: "\<not> (a \<in> set (i # is) \<and> a \<le> b) \<and> \<not> (b \<in> set (i # is) \<and> b \<le> a)"
    have "m' ! a ! b = m1 ! a ! b" using frame2[OF a b] nt by auto
    also have "\<dots> = m ! a ! b" using frame1[OF a b] nt by auto
    finally show "m' ! a ! b = m ! a ! b" .
  qed
  show ?case using sq' later here frame' by simp
qed

lemma rows_loop_full:
  assumes "rows_loop f sts k [0..<k] (zeros k) = (m', None)"
  shows "square k m'"
    and "\<And>i j. i \<le> j \<Longrightarrow> j < k \<Longrightarrow> f (sts ! i) (sts ! j) = Inr (m' ! i ! j)"
    and "\<And>i j. i < k \<Longrightarrow> j < k \<Longrightarrow> m' ! i ! j = m' ! j ! i"
proof -
  have d: "distinct [0..<k]" and b: "\<forall>i\<in>set [0..<k]. i < k" by simp_all
  note R = rows_loop_spec[OF square_zeros d b assms]
  show "square k m'" using R by simp
  have up: "\<And>i j. i \<le> j \<Longrightarrow> j < k \<Longrightarrow>
      f (sts ! i) (sts ! j) = Inr (m' ! i ! j) \<and> m' ! j ! i = m' ! i ! j"
    using R by simp
  show "\<And>i j. i \<le> j \<Longrightarrow> j < k \<Longrightarrow> f (sts ! i) (sts ! j) = Inr (m' ! i ! j)"
    using up by blast
  show "\<And>i j. i < k \<Longrightarrow> j < k \<Longrightarrow> m' ! i ! j = m' ! j ! i"
  proof -
    fix i j :: nat assume "i < k" "j < k"
    then show "m' ! i ! j = m' ! j ! i"
      using up[of i j] up[of j i] by (cases "i \<le> j") simp_all
  qed
qed

text \<open>
  The loops end without an exception when every requested term is computed, and stop
  at the very first term when that one raises.
\<close>

lemma row_loop_total:
  "i < length sts \<Longrightarrow> \<forall>j\<in>set js. j < length sts \<and> (\<exists>v. f (sts ! i) (sts ! j) = Inr v) \<Longrightarrow>
   \<exists>m'. row_loop f sts i js m = (m', None)"
proof (induction js arbitrary: m)
  case Nil
  then show ?case by simp
next
  case (Cons j js)
  from Cons.prems(2) obtain v where v: "f (sts ! i) (sts ! j) = Inr v" and j: "j < length sts"
    by auto
  from Cons.prems(2) have rest: "\<forall>x\<in>set js. x < length sts \<and> (\<exists>v. f (sts ! i) (sts ! x) = Inr v)"
    by simp
  show ?case
    using Cons.IH[OF Cons.prems(1) rest, of "mirror_write m i j v"] Cons.prems(1) j v
    by (simp add: row_loop_Cons del: row_loop.simps)
qed

lemma rows_loop_total:
  "k \<le> length sts \<Longrightarrow> \<forall>i\<in>set is. i < k \<Longrightarrow>
   \<forall>i<k. \<forall>j<k. i \<le> j \<longrightarrow> (\<exists>v. f (sts ! i) (sts ! j) = Inr v) \<Longrightarrow>
   \<exists>m'. rows_loop f sts k is m = (m', None)"
proof (induction "is" arbitrary: m)
  case Nil
  then show ?case by simp
next
  case (Cons i "is")
  from Cons.prems(2) have ik: "i < k" and isk: "\<forall>x\<in>set is. x < k" by simp_all
  have il: "i < length sts" using ik Cons.prems(1) by simp
  have cols: "\<forall>j\<in>set [i..<k]. j < length sts \<and> (\<exists>v. f (sts ! i) (sts ! j) = Inr v)"
    using Cons.prems(1,3) ik by auto
  obtain m1 where row: "row_loop f sts i [i..<k] m = (m1, None)"
    using row_loop_total[of i sts "[i..<k]" f m, OF il cols] by blast
  show ?case using Cons.IH[OF Cons.prems(1) isk Cons.prems(3), of m1] row by simp
qed

lemma rows_loop_first_error:
  "0 < k \<Longrightarrow> 0 < length sts \<Longrightarrow> f (sts ! 0) (sts ! 0) = Inl e \<Longrightarrow>
   rows_loop f sts k [0..<k] m = (m, Some e)"
  by (simp add: upt_conv_Cons)

section \<open>The method and the constructor\<close>

lemma init_eq:
  "init ro mt bas kw =
     (case populate_interaction_matrix ro (new_instance mt bas) kw of
        (self', out, None) \<Rightarrow> Inr (self', out)
      | (self', out, Some e) \<Rightarrow> Inl e)"
  by (simp add: init_def new_instance_def Let_def)

lemma init_Inr_iff:
  "init ro mt bas kw = Inr (self', out) \<longleftrightarrow>
   populate_interaction_matrix ro (new_instance mt bas) kw = (self', out, None)"
  by (auto simp: init_eq split: prod.splits option.splits)

lemma populate_computed:
  assumes "matrix self = None \<or> kwargs_get (cache_matrices kw) True = False"
    and "populate_interaction_matrix ro self kw = (self', out, None)"
  shows "\<exists>m. self' = self\<lparr>matrix := Some m\<rparr> \<and> out = [] \<and>
           rows_loop (\<lambda>s1 s2. interaction_term ro self s1 s2 kw) (states (basis self))
             (num_states self) [0..<num_states self] (zeros (num_states self)) = (m, None)"
  using assms
  by (auto simp: populate_interaction_matrix_def Let_def split: if_splits prod.splits option.splits)

lemma populate_cached:
  assumes "matrix self \<noteq> None" and "kwargs_get (cache_matrices kw) True"
  shows "populate_interaction_matrix ro self kw =
           (self, [''Using cached '' @ type self @ '' matrix''], None)"
  using assms by (auto simp: populate_interaction_matrix_def Let_def)

lemma populate_result_symmetric:
  assumes pop: "populate_interaction_matrix ro self kw = (self', out, None)"
    and old: "\<And>m. matrix self = Some m \<Longrightarrow> square (num_states self) m \<and> symmetric (num_states self) m"
  shows "\<exists>m. matrix self' = Some m \<and> square (num_states self) m \<and> symmetric (num_states self) m"
proof (cases "matrix self = None \<or> kwargs_get (cache_matrices kw) True = False")
  case True
  from populate_computed[OF True pop] obtain m where
    s: "self' = self\<lparr>matrix := Some m\<rparr>" and
    r: "rows_loop (\<lambda>s1 s2. interaction_term ro self s1 s2 kw) (states (basis self))
             (num_states self) [0..<num_states self] (zeros (num_states self)) = (m, None)"
    by blast
  have "square (num_states self) m" using rows_loop_full(1)[OF r] .
  moreover have "symmetric (num_states self) m"
    unfolding symmetric_def using rows_loop_full(3)[OF r] by blast
  ultimately show ?thesis using s by simp
next
  case False
  then obtain m where m: "matrix self = Some m" and c: "kwargs_get (cache_matrices kw) True"
    by auto
  have "self' = self" using populate_cached[of self kw ro] m c pop by simp
  then show ?thesis using m old by simp
qed

lemma interaction_term_total:
  assumes "type self = ''zeeman'' \<or> (type self = ''stark'' \<and> (\<forall>a b c d e. \<exists>v. ro a b c d e = Inr v))"
  shows "\<exists>v. interaction_term ro self s1 s2 kw = Inr v"
proof -
  { assume st: "type self = ''stark''" and tot: "\<forall>a b c d e. \<exists>v. ro a b c d e = Inr v"
    obtain r where "ro (n_eff s1) (L s1) (n_eff s2) (L s2) (kwargs_get (p kw) 1) = Inr r"
      using tot by blast
    then have "\<exists>v. stark_interaction ro s1 s2 kw = Inr v"
      by (simp add: stark_interaction_def Let_def)
    then have ?thesis using st by (simp add: interaction_term_def) }
  moreover
  { assume "type self = ''zeeman''"
    then have ?thesis by (simp add: interaction_term_def) }
  ultimately show ?thesis using assms by blast
qed

lemma populate_total:
  assumes ty: "type self = ''zeeman'' \<or> (type self = ''stark'' \<and> (\<forall>a b c d e. \<exists>v. ro a b c d e = Inr v))"
    and len: "num_states self \<le> length (states (basis self))"
    and nl: "\<not> kwargs_get (load_matrices kw) False"
    and ns: "\<not> kwargs_get (save_matrices kw) False"
  shows "\<exists>self' out. populate_interaction_matrix ro self kw = (self', out, None)"
proof -
  have b: "\<forall>i\<in>set [0..<num_states self]. i < num_states self" by simp
  have t: "\<forall>i<num_states self. \<forall>j<num_states self. i \<le> j \<longrightarrow>
      (\<exists>v. (\<lambda>s1 s2. interaction_term ro self s1 s2 kw) (states (basis self) ! i) (states (basis self) ! j) = Inr v)"
    using interaction_term_total[OF ty] by blast
  obtain m where "rows_loop (\<lambda>s1 s2. interaction_term ro self s1 s2 kw) (states (basis self))
             (num_states self) [0..<num_states self] (zeros (num_states self)) = (m, None)"
    using rows_loop_total[OF len b t] by blast
  then show ?thesis using nl ns
    by (simp add: populate_interaction_matrix_def Let_def)
qed

lemma lower_Stark: "lower ''Stark'' = ''stark''"
  by code_simp

lemma lower_foo: "lower ''foo'' = ''foo''"
  by code_simp

lemma const_radial_total: "\<forall>a b c d e. \<exists>v. const_radial a b c d e = Inr v"
  by (simp add: const_radial_def)

section \<open>The angular overlap\<close>

lemma minus_one_powi: "(- 1 :: real) powi k = (if even k then 1 else - 1)"
  by (simp add: power_int_minus_left)

lemma np_mod_0: "np_mod 0 180 = 0"
  by (simp add: np_mod_def)

lemma np_mod_90: "np_mod 90 180 = 90"
  by (simp add: np_mod_def)

lemma sin_90: "sin (90 * (pi / 180)) = 1"
proof -
  have "90 * (pi / 180) = pi / 2" by simp
  then show ?thesis by (simp only: sin_pi_half)
qed

lemma perpendicular_branch_add:
  "perpendicular_branch overlap f L_1 M_1 dL dM = overlap + perpendicular_branch 0 f L_1 M_1 dL dM"
  by (simp add: perpendicular_branch_def Let_def)

lemma angular_overlap_split:
  "angular_overlap L_1 L_2 M_1 M_2 kw =
     (if np_mod (kwargs_get (field_angle kw) 0) 180 = 90 then 0
      else parallel_branch 0 ((cos (kwargs_get (field_angle kw) 0 * (pi / 180)))\<^sup>2)
             L_1 M_1 (L_2 - L_1) (M_2 - M_1) (kwargs_get (dM_allow kw) [0])) +
     (if np_mod (kwargs_get (field_angle kw) 0) 180 = 0 then 0
      else perpendicular_branch 0 ((sin (kwargs_get (field_angle kw) 0 * (pi / 180)))\<^sup>2)
             L_1 M_1 (L_2 - L_1) (M_2 - M_1))"
  unfolding angular_overlap_def Let_def
  using perpendicular_branch_add[of "parallel_branch 0 ((cos (kwargs_get (field_angle kw) 0 * (pi / 180)))\<^sup>2)
             L_1 M_1 (L_2 - L_1) (M_2 - M_1) (kwargs_get (dM_allow kw) [0])"]
  by simp

lemma parallel_branch_not_allowed:
  "dM \<notin> set allow \<Longrightarrow> parallel_branch overlap f L_1 M_1 dL dM allow = overlap"
  by (simp add: parallel_branch_def Let_def)

lemma perpendicular_branch_dM_0:
  "perpendicular_branch overlap f L_1 M_1 dL 0 = overlap"
  by (simp add: perpendicular_branch_def Let_def)

text \<open>
  Both blocks give the same value when the two states are exchanged: the radicands of
  the exchanged pair are the same integers, and the sign factors agree.
\<close>

lemma parallel_branch_swap:
  assumes cl: "(1 \<in> set allow) = (- 1 \<in> set allow)"
  shows "parallel_branch overlap f L_1 M_1 (L_2 - L_1) (M_2 - M_1) allow =
         parallel_branch overlap f L_2 M_2 (L_1 - L_2) (M_1 - M_2) allow"
proof -
  define dL where "dL = L_2 - L_1"
  define dM where "dM = M_2 - M_1"
  have L2: "L_2 = L_1 + dL" and M2: "M_2 = M_1 + dM" by (simp_all add: dL_def dM_def)
  have goal: "parallel_branch overlap f L_1 M_1 dL dM allow =
         parallel_branch overlap f (L_1 + dL) (M_1 + dM) (- dL) (- dM) allow"
  proof -
    consider "dL = 1" | "dL = - 1" | "dL \<noteq> 1 \<and> dL \<noteq> - 1" by blast
    then show ?thesis
    proof cases
      case 1
      consider "dM = 0" | "dM = 1" | "dM = - 1" | "dM \<noteq> 0 \<and> dM \<noteq> 1 \<and> dM \<noteq> - 1" by blast
      then show ?thesis
      proof cases
        case 1
        show ?thesis using \<open>dL = 1\<close> 1
          by (simp add: parallel_branch_def Let_def algebra_simps power2_eq_square)
      next
        case 2
        show ?thesis using \<open>dL = 1\<close> 2 cl
          by (simp add: parallel_branch_def Let_def algebra_simps power2_eq_square)
      next
        case 3
        show ?thesis using \<open>dL = 1\<close> 3 cl
          by (simp add: parallel_branch_def Let_def algebra_simps power2_eq_square)
      next
        case 4
        then show ?thesis by (simp add: parallel_branch_def Let_def)
      qed
    next
      case 2
      consider "dM = 0" | "dM = 1" | "dM = - 1" | "dM \<noteq> 0 \<and> dM \<noteq> 1 \<and> dM \<noteq> - 1" by blast
      then show ?thesis
      proof cases
        case 1
        show ?thesis using \<open>dL = - 1\<close> 1
          by (simp add: parallel_branch_def Let_def algebra_simps power2_eq_square)
      next
        case 2
        show ?thesis using \<open>dL = - 1\<close> 2 cl
          by (simp add: parallel_branch_def Let_def algebra_simps power2_eq_square)
      next
        case 3
        show ?thesis using \<open>dL = - 1\<close> 3 cl
          by (simp add: parallel_branch_def Let_def algebra_simps power2_eq_square)
      next
        case 4
        then show ?thesis by (simp add: parallel_branch_def Let_def)
      qed
    next
      case 3
      then show ?thesis by (simp add: parallel_branch_def Let_def)
    qed
  qed
  have "L_1 - L_2 = - dL" "M_1 - M_2 = - dM" by (simp_all add: dL_def dM_def)
  then show ?thesis using goal unfolding L2[symmetric] M2[symmetric] dL_def[symmetric] dM_def[symmetric]
    by simp
qed

lemma perpendicular_branch_swap:
  "perpendicular_branch overlap f L_1 M_1 (L_2 - L_1) (M_2 - M_1) =
   perpendicular_branch overlap f L_2 M_2 (L_1 - L_2) (M_1 - M_2)"
proof -
  define dL where "dL = L_2 - L_1"
  define dM where "dM = M_2 - M_1"
  have L2: "L_2 = L_1 + dL" and M2: "M_2 = M_1 + dM" by (simp_all add: dL_def dM_def)
  have goal: "perpendicular_branch overlap f L_1 M_1 dL dM =
         perpendicular_branch overlap f (L_1 + dL) (M_1 + dM) (- dL) (- dM)"
  proof -
    consider "dL = 1" | "dL = - 1" | "dL \<noteq> 1 \<and> dL \<noteq> - 1" by blast
    then show ?thesis
    proof cases
      case 1
      consider "dM = 1" | "dM = - 1" | "dM \<noteq> 1 \<and> dM \<noteq> - 1" by blast
      then show ?thesis
      proof cases
        case 1
        show ?thesis using \<open>dL = 1\<close> 1
          by (simp add: perpendicular_branch_def Let_def minus_one_powi algebra_simps)
      next
        case 2
        show ?thesis using \<open>dL = 1\<close> 2
          by (simp add: perpendicular_branch_def Let_def minus_one_powi algebra_simps)
      next
        case 3
        then show ?thesis by (simp add: perpendicular_branch_def Let_def)
      qed
    next
      case 2
      consider "dM = 1" | "dM = - 1" | "dM \<noteq> 1 \<and> dM \<noteq> - 1" by blast
      then show ?thesis
      proof cases
        case 1
        show ?thesis using \<open>dL = - 1\<close> 1
          by (simp add: perpendicular_branch_def Let_def minus_one_powi algebra_simps)
      next
        case 2
        show ?thesis using \<open>dL = - 1\<close> 2
          by (simp add: perpendicular_branch_def Let_def minus_one_powi algebra_simps)
      next
        case 3
        then show ?thesis by (simp add: perpendicular_branch_def Let_def)
      qed
    next
      case 3
      then show ?thesis by (simp add: perpendicular_branch_def Let_def)
    qed
  qed
  have "L_1 - L_2 = - dL" "M_1 - M_2 = - dM" by (simp_all add: dL_def dM_def)
  then show ?thesis using goal unfolding L2[symmetric] M2[symmetric] dL_def[symmetric] dM_def[symmetric]
    by simp
qed

section \<open>Cache file names\<close>

lemma save_name_last: "\<exists>pre. save_name str fmt self kw = pre @ last_part str fmt self kw"
  by (simp add: save_name_def filename_def last_part_def Let_def)

lemma not_npz: "t \<noteq> [] \<Longrightarrow> last t \<noteq> CHR ''z'' \<Longrightarrow> \<not> suffix ''.npz'' (pre @ t)"
proof
  assume t: "t \<noteq> []" "last t \<noteq> CHR ''z''" and s: "suffix ''.npz'' (pre @ t)"
  from s obtain u where "pre @ t = u @ ''.npz''" by (auto simp: suffix_def)
  then have "last (pre @ t) = last (u @ ''.npz'')" by simp
  then show False using t by simp
qed

lemma load_name_eq: "load_name str fmt self kw = save_name str fmt self kw @ ''.npz''"
  by (simp add: load_name_def save_name_def Let_def)

lemma check_name_eq: "check_name str fmt self kw = load_name str fmt self kw"
  by (simp add: load_name_def check_name_def)

lemma helium_str: "str_int 2 = ''2''" "str_int 15 = ''15''" "str_int 4 = ''4''" "str_int 0 = ''0''" "str_int 1 = ''1''"
  by code_simp+

section \<open>The claims\<close>

text \<open>
  C1. For each of the kinds Stark and Zeeman and every basis, the matrix of a built
  instance is symmetric. Whenever the constructor returns an instance, that instance
  holds a square matrix over the basis with \<open>m[i][j] = m[j][i]\<close> for all indices; the
  constructor does return one for the kind Zeeman, and for the kind Stark when the
  radial integral never raises, as long as neither loading nor saving is requested;
  and a later call of \<^verbatim>\<open>populate_interaction_matrix\<close> that returns keeps the matrix
  square and symmetric.
\<close>

theorem build_symmetric:
  "(init radial_overlap matrix_type bas kw = Inr (self', out) \<longrightarrow>
      (\<exists>m. matrix self' = Some m \<and> square (length (states bas)) m \<and>
           (\<forall>i<length (states bas). \<forall>j<length (states bas). m ! i ! j = m ! j ! i))) \<and>
   ((lower matrix_type = ''zeeman'' \<or>
       (lower matrix_type = ''stark'' \<and> (\<forall>a b c d e. \<exists>v. radial_overlap a b c d e = Inr v))) \<and>
     \<not> kwargs_get (load_matrices kw) False \<and> \<not> kwargs_get (save_matrices kw) False \<longrightarrow>
      (\<exists>self'' out''. init radial_overlap matrix_type bas kw = Inr (self'', out''))) \<and>
   (populate_interaction_matrix radial_overlap self kw = (self', out, None) \<and>
     (\<forall>m. matrix self = Some m \<longrightarrow> square (num_states self) m \<and> symmetric (num_states self) m) \<longrightarrow>
      (\<exists>m. matrix self' = Some m \<and> square (num_states self) m \<and> symmetric (num_states self) m))"
proof (intro conjI impI)
  assume "init radial_overlap matrix_type bas kw = Inr (self', out)"
  then have pop: "populate_interaction_matrix radial_overlap (new_instance matrix_type bas) kw = (self', out, None)"
    by (simp add: init_Inr_iff)
  have "\<exists>m. matrix self' = Some m \<and> square (num_states (new_instance matrix_type bas)) m \<and>
      symmetric (num_states (new_instance matrix_type bas)) m"
    by (rule populate_result_symmetric[OF pop]) (simp add: new_instance_def)
  then show "\<exists>m. matrix self' = Some m \<and> square (length (states bas)) m \<and>
           (\<forall>i<length (states bas). \<forall>j<length (states bas). m ! i ! j = m ! j ! i)"
    by (simp add: new_instance_def symmetric_def)
next
  assume h: "(lower matrix_type = ''zeeman'' \<or>
       (lower matrix_type = ''stark'' \<and> (\<forall>a b c d e. \<exists>v. radial_overlap a b c d e = Inr v))) \<and>
     \<not> kwargs_get (load_matrices kw) False \<and> \<not> kwargs_get (save_matrices kw) False"
  have "\<exists>s' o'. populate_interaction_matrix radial_overlap (new_instance matrix_type bas) kw = (s', o', None)"
    by (rule populate_total) (use h in \<open>simp_all add: new_instance_def\<close>)
  then show "\<exists>self'' out''. init radial_overlap matrix_type bas kw = Inr (self'', out'')"
    by (simp add: init_Inr_iff)
next
  assume h: "populate_interaction_matrix radial_overlap self kw = (self', out, None) \<and>
     (\<forall>m. matrix self = Some m \<longrightarrow> square (num_states self) m \<and> symmetric (num_states self) m)"
  show "\<exists>m. matrix self' = Some m \<and> square (num_states self) m \<and> symmetric (num_states self) m"
    by (rule populate_result_symmetric[of radial_overlap self kw self' out]) (use h in simp_all)
qed

theorem build_symmetric_witness:
  "\<exists>self' out m. init const_radial ''Stark'' two_states no_kwargs = Inr (self', out) \<and>
      matrix self' = Some m \<and> square 2 m \<and> m ! 0 ! 1 = m ! 1 ! 0"
proof -
  have nl: "\<not> kwargs_get (load_matrices no_kwargs) False" "\<not> kwargs_get (save_matrices no_kwargs) False"
    by (simp_all add: no_kwargs_def kwargs_get_def)
  have len: "length (states two_states) = 2" by (simp add: two_states_def)
  obtain s' o' where i: "init const_radial ''Stark'' two_states no_kwargs = Inr (s', o')"
    using build_symmetric[of const_radial "''Stark''" two_states no_kwargs] lower_Stark const_radial_total nl
    by blast
  have "\<exists>m. matrix s' = Some m \<and> square (length (states two_states)) m \<and>
      (\<forall>i<length (states two_states). \<forall>j<length (states two_states). m ! i ! j = m ! j ! i)"
    using build_symmetric[of const_radial "''Stark''" two_states no_kwargs s' o'] i by blast
  then obtain m where m: "matrix s' = Some m" "square 2 m" "\<forall>i<2. \<forall>j<2. m ! i ! j = m ! j ! i"
    unfolding len by blast
  have "m ! 0 ! 1 = m ! 1 ! 0" using m(3) by simp
  then show ?thesis using i m by blast
qed

text \<open>
  C2. \<open>stark_interaction\<close> returns exactly \<open>0.0\<close> when the difference of the
  \<open>L\<close> values is not \<open>1\<close> in absolute value or the magnetic quantum numbers
  differ by more than \<open>1\<close>, whatever the radial integral is (it is not called: the
  result is \<open>0.0\<close> even for a radial integral that always raises); otherwise the
  result is the angular overlap times the radial integral.
\<close>

theorem stark_selection_rule:
  "(\<bar>L s2 - L s1\<bar> \<noteq> 1 \<or> \<bar>state_ML s2 - state_ML s1\<bar> > 1 \<longrightarrow>
      stark_interaction radial_overlap s1 s2 kw = Inr 0) \<and>
   (\<bar>L s2 - L s1\<bar> = 1 \<and> \<bar>state_ML s2 - state_ML s1\<bar> \<le> 1 \<longrightarrow>
      stark_interaction radial_overlap s1 s2 kw =
        (case radial_overlap (n_eff s1) (L s1) (n_eff s2) (L s2) (kwargs_get (p kw) 1) of
           Inl e \<Rightarrow> Inl e
         | Inr r \<Rightarrow> Inr (angular_overlap (L s1) (L s2) (state_ML s1) (state_ML s2) kw * r)))"
  by (simp add: stark_interaction_def Let_def)

theorem stark_selection_rule_witness:
  "stark_interaction failing_radial \<lparr>n = 3, n_eff = 3, L = 0, state_ML = 0\<rparr>
      \<lparr>n = 3, n_eff = 3, L = 2, state_ML = 0\<rparr> no_kwargs = Inr 0 \<and>
   stark_interaction failing_radial \<lparr>n = 3, n_eff = 3, L = 2, state_ML = 2\<rparr>
      \<lparr>n = 3, n_eff = 3, L = 1, state_ML = 0\<rparr> no_kwargs = Inr 0 \<and>
   stark_interaction failing_radial \<lparr>n = 3, n_eff = 3, L = 0, state_ML = 0\<rparr>
      \<lparr>n = 3, n_eff = 3, L = 1, state_ML = 0\<rparr> no_kwargs = Inl (External ''numerov'')"
  using stark_selection_rule[of "\<lparr>n = 3, n_eff = 3, L = 2, state_ML = 0\<rparr>" "\<lparr>n = 3, n_eff = 3, L = 0, state_ML = 0\<rparr>" failing_radial no_kwargs]
    stark_selection_rule[of "\<lparr>n = 3, n_eff = 3, L = 1, state_ML = 0\<rparr>" "\<lparr>n = 3, n_eff = 3, L = 2, state_ML = 2\<rparr>" failing_radial no_kwargs]
    stark_selection_rule[of "\<lparr>n = 3, n_eff = 3, L = 1, state_ML = 0\<rparr>" "\<lparr>n = 3, n_eff = 3, L = 0, state_ML = 0\<rparr>" failing_radial no_kwargs]
  by (simp add: failing_radial_def)

text \<open>
  C3. When the allowed differences \<^verbatim>\<open>dM_allow\<close> are closed under negation (as the
  default \<open>[0]\<close> is), \<open>angular_overlap\<close> has the same value when the two states are
  exchanged, for all integer arguments; hence, when the radial integral is symmetric
  under the exchange as well, so has \<open>stark_interaction\<close>.
\<close>

theorem swap_symmetry:
  "(\<forall>d\<in>set (kwargs_get (dM_allow kw) [0]). - d \<in> set (kwargs_get (dM_allow kw) [0])) \<longrightarrow>
     angular_overlap L_1 L_2 M_1 M_2 kw = angular_overlap L_2 L_1 M_2 M_1 kw \<and>
     ((\<forall>n1 l1 n2 l2 q. radial_overlap n1 l1 n2 l2 q = radial_overlap n2 l2 n1 l1 q) \<longrightarrow>
        stark_interaction radial_overlap s1 s2 kw = stark_interaction radial_overlap s2 s1 kw)"
proof
  assume cl: "\<forall>d\<in>set (kwargs_get (dM_allow kw) [0]). - d \<in> set (kwargs_get (dM_allow kw) [0])"
  have c1: "(1 \<in> set (kwargs_get (dM_allow kw) [0])) = (- 1 \<in> set (kwargs_get (dM_allow kw) [0]))"
    using cl by force
  have ang: "angular_overlap a b c d kw = angular_overlap b a d c kw" for a b c d
    unfolding angular_overlap_split
    using parallel_branch_swap[OF c1, of 0 _ a c b d] perpendicular_branch_swap[of 0 _ a c b d]
    by simp
  have st: "stark_interaction radial_overlap s1 s2 kw = stark_interaction radial_overlap s2 s1 kw"
    if sym: "\<forall>n1 l1 n2 l2 q. radial_overlap n1 l1 n2 l2 q = radial_overlap n2 l2 n1 l1 q"
  proof -
    have r: "radial_overlap (n_eff s1) (L s1) (n_eff s2) (L s2) (kwargs_get (p kw) 1) =
        radial_overlap (n_eff s2) (L s2) (n_eff s1) (L s1) (kwargs_get (p kw) 1)"
      using sym by blast
    have a: "\<bar>L s2 - L s1\<bar> = \<bar>L s1 - L s2\<bar>" "\<bar>state_ML s2 - state_ML s1\<bar> = \<bar>state_ML s1 - state_ML s2\<bar>"
      by simp_all
    show ?thesis
      using r ang[of "L s1" "L s2" "state_ML s1" "state_ML s2"]
      by (simp add: stark_interaction_def Let_def a)
  qed
  show "angular_overlap L_1 L_2 M_1 M_2 kw = angular_overlap L_2 L_1 M_2 M_1 kw \<and>
     ((\<forall>n1 l1 n2 l2 q. radial_overlap n1 l1 n2 l2 q = radial_overlap n2 l2 n1 l1 q) \<longrightarrow>
        stark_interaction radial_overlap s1 s2 kw = stark_interaction radial_overlap s2 s1 kw)"
    using ang st by blast
qed

theorem swap_symmetry_witness:
  "angular_overlap 0 1 0 0 no_kwargs = angular_overlap 1 0 0 0 no_kwargs \<and>
   stark_interaction const_radial \<lparr>n = 10, n_eff = 10.0, L = 0, state_ML = 0\<rparr>
       \<lparr>n = 10, n_eff = 10.0, L = 1, state_ML = 0\<rparr> no_kwargs =
   stark_interaction const_radial \<lparr>n = 10, n_eff = 10.0, L = 1, state_ML = 0\<rparr>
       \<lparr>n = 10, n_eff = 10.0, L = 0, state_ML = 0\<rparr> no_kwargs"
proof -
  have cl: "\<forall>d\<in>set (kwargs_get (dM_allow no_kwargs) [0]). - d \<in> set (kwargs_get (dM_allow no_kwargs) [0])"
    by (simp add: no_kwargs_def kwargs_get_def)
  have sym: "\<forall>n1 l1 n2 l2 q. const_radial n1 l1 n2 l2 q = const_radial n2 l2 n1 l1 q"
    by (simp add: const_radial_def)
  show ?thesis
    using swap_symmetry[of no_kwargs 0 1 0 0 const_radial
        "\<lparr>n = 10, n_eff = 10.0, L = 0, state_ML = 0\<rparr>" "\<lparr>n = 10, n_eff = 10.0, L = 1, state_ML = 0\<rparr>"]
      cl sym
    by blast
qed

text \<open>
  C4. The parallel block of \<open>angular_overlap\<close> is added exactly when the field angle
  modulo 180 is not 90, the perpendicular block exactly when it is not 0. At field
  angle 0 the value is the parallel contribution alone (with weight \<open>1\<close>), at field
  angle 90 the perpendicular contribution alone (with weight \<open>1\<close>).
\<close>

theorem angular_overlap_field_angle:
  "angular_overlap L_1 L_2 M_1 M_2 kw =
     (if np_mod (kwargs_get (field_angle kw) 0) 180 = 90 then 0
      else parallel_branch 0 ((cos (kwargs_get (field_angle kw) 0 * (pi / 180)))\<^sup>2)
             L_1 M_1 (L_2 - L_1) (M_2 - M_1) (kwargs_get (dM_allow kw) [0])) +
     (if np_mod (kwargs_get (field_angle kw) 0) 180 = 0 then 0
      else perpendicular_branch 0 ((sin (kwargs_get (field_angle kw) 0 * (pi / 180)))\<^sup>2)
             L_1 M_1 (L_2 - L_1) (M_2 - M_1)) \<and>
   (kwargs_get (field_angle kw) 0 = 0 \<longrightarrow>
      angular_overlap L_1 L_2 M_1 M_2 kw =
        parallel_branch 0 1 L_1 M_1 (L_2 - L_1) (M_2 - M_1) (kwargs_get (dM_allow kw) [0])) \<and>
   (kwargs_get (field_angle kw) 0 = 90 \<longrightarrow>
      angular_overlap L_1 L_2 M_1 M_2 kw =
        perpendicular_branch 0 1 L_1 M_1 (L_2 - L_1) (M_2 - M_1))"
proof (intro conjI impI)
  show "angular_overlap L_1 L_2 M_1 M_2 kw =
     (if np_mod (kwargs_get (field_angle kw) 0) 180 = 90 then 0
      else parallel_branch 0 ((cos (kwargs_get (field_angle kw) 0 * (pi / 180)))\<^sup>2)
             L_1 M_1 (L_2 - L_1) (M_2 - M_1) (kwargs_get (dM_allow kw) [0])) +
     (if np_mod (kwargs_get (field_angle kw) 0) 180 = 0 then 0
      else perpendicular_branch 0 ((sin (kwargs_get (field_angle kw) 0 * (pi / 180)))\<^sup>2)
             L_1 M_1 (L_2 - L_1) (M_2 - M_1))"
    by (rule angular_overlap_split)
next
  assume z: "kwargs_get (field_angle kw) 0 = 0"
  show "angular_overlap L_1 L_2 M_1 M_2 kw =
        parallel_branch 0 1 L_1 M_1 (L_2 - L_1) (M_2 - M_1) (kwargs_get (dM_allow kw) [0])"
    unfolding angular_overlap_split z by (simp add: np_mod_0)
next
  assume z: "kwargs_get (field_angle kw) 0 = 90"
  show "angular_overlap L_1 L_2 M_1 M_2 kw =
        perpendicular_branch 0 1 L_1 M_1 (L_2 - L_1) (M_2 - M_1)"
    unfolding angular_overlap_split z by (simp add: np_mod_90 sin_90)
qed

theorem angular_overlap_field_angle_witness:
  "angular_overlap 0 1 0 0 no_kwargs = sqrt (1 / 3) \<and>
   angular_overlap 0 1 0 1 (no_kwargs\<lparr>field_angle := Some 90\<rparr>) = 0.5 * sqrt (2 / 3)"
  using angular_overlap_field_angle[of 0 1 0 0 no_kwargs]
    angular_overlap_field_angle[of 0 1 0 1 "no_kwargs\<lparr>field_angle := Some 90\<rparr>"]
  by (simp add: no_kwargs_def kwargs_get_def parallel_branch_def perpendicular_branch_def pow_half_def)

text \<open>
  C5. The perpendicular contribution does not depend on \<^verbatim>\<open>dM_allow\<close>: when the
  difference of the magnetic quantum numbers is not allowed the parallel block adds
  nothing and the value is the perpendicular contribution, and two settings of
  \<^verbatim>\<open>dM_allow\<close> change the value by the difference of the parallel contributions only.
  For equal magnetic quantum numbers the perpendicular block adds exactly \<open>0\<close>.
\<close>

theorem perpendicular_ignores_dM_allow:
  "(M_2 - M_1 \<notin> set (kwargs_get (dM_allow kw) [0]) \<longrightarrow>
      angular_overlap L_1 L_2 M_1 M_2 kw =
        (if np_mod (kwargs_get (field_angle kw) 0) 180 = 0 then 0
         else perpendicular_branch 0 ((sin (kwargs_get (field_angle kw) 0 * (pi / 180)))\<^sup>2)
                L_1 M_1 (L_2 - L_1) (M_2 - M_1))) \<and>
   (M_2 = M_1 \<longrightarrow>
      angular_overlap L_1 L_2 M_1 M_2 kw =
        (if np_mod (kwargs_get (field_angle kw) 0) 180 = 90 then 0
         else parallel_branch 0 ((cos (kwargs_get (field_angle kw) 0 * (pi / 180)))\<^sup>2)
                L_1 M_1 (L_2 - L_1) 0 (kwargs_get (dM_allow kw) [0]))) \<and>
   perpendicular_branch overlap frac_perp L_1 M_1 (L_2 - L_1) 0 = overlap \<and>
   angular_overlap L_1 L_2 M_1 M_2 (kw\<lparr>dM_allow := a\<rparr>) - angular_overlap L_1 L_2 M_1 M_2 (kw\<lparr>dM_allow := b\<rparr>) =
     (if np_mod (kwargs_get (field_angle kw) 0) 180 = 90 then 0
      else parallel_branch 0 ((cos (kwargs_get (field_angle kw) 0 * (pi / 180)))\<^sup>2)
             L_1 M_1 (L_2 - L_1) (M_2 - M_1) (kwargs_get a [0]) -
           parallel_branch 0 ((cos (kwargs_get (field_angle kw) 0 * (pi / 180)))\<^sup>2)
             L_1 M_1 (L_2 - L_1) (M_2 - M_1) (kwargs_get b [0]))"
proof (intro conjI impI)
  assume "M_2 - M_1 \<notin> set (kwargs_get (dM_allow kw) [0])"
  then show "angular_overlap L_1 L_2 M_1 M_2 kw =
        (if np_mod (kwargs_get (field_angle kw) 0) 180 = 0 then 0
         else perpendicular_branch 0 ((sin (kwargs_get (field_angle kw) 0 * (pi / 180)))\<^sup>2)
                L_1 M_1 (L_2 - L_1) (M_2 - M_1))"
    by (simp add: angular_overlap_split parallel_branch_not_allowed)
next
  assume "M_2 = M_1"
  then show "angular_overlap L_1 L_2 M_1 M_2 kw =
        (if np_mod (kwargs_get (field_angle kw) 0) 180 = 90 then 0
         else parallel_branch 0 ((cos (kwargs_get (field_angle kw) 0 * (pi / 180)))\<^sup>2)
                L_1 M_1 (L_2 - L_1) 0 (kwargs_get (dM_allow kw) [0]))"
    by (simp add: angular_overlap_split perpendicular_branch_dM_0)
next
  show "perpendicular_branch overlap frac_perp L_1 M_1 (L_2 - L_1) 0 = overlap"
    by (rule perpendicular_branch_dM_0)
next
  show "angular_overlap L_1 L_2 M_1 M_2 (kw\<lparr>dM_allow := a\<rparr>) - angular_overlap L_1 L_2 M_1 M_2 (kw\<lparr>dM_allow := b\<rparr>) =
     (if np_mod (kwargs_get (field_angle kw) 0) 180 = 90 then 0
      else parallel_branch 0 ((cos (kwargs_get (field_angle kw) 0 * (pi / 180)))\<^sup>2)
             L_1 M_1 (L_2 - L_1) (M_2 - M_1) (kwargs_get a [0]) -
           parallel_branch 0 ((cos (kwargs_get (field_angle kw) 0 * (pi / 180)))\<^sup>2)
             L_1 M_1 (L_2 - L_1) (M_2 - M_1) (kwargs_get b [0]))"
    by (simp add: angular_overlap_split)
qed

theorem perpendicular_ignores_dM_allow_witness:
  "angular_overlap 0 1 0 1 (no_kwargs\<lparr>field_angle := Some 90\<rparr>) = 0.5 * sqrt (2 / 3) \<and>
   angular_overlap 0 1 0 1 no_kwargs = 0"
  using perpendicular_ignores_dM_allow[of 1 0 "no_kwargs\<lparr>field_angle := Some 90\<rparr>" 0 1]
    perpendicular_ignores_dM_allow[of 1 0 no_kwargs 0 1]
  by (simp add: no_kwargs_def kwargs_get_def perpendicular_branch_def pow_half_def np_mod_0 np_mod_90 sin_90)

text \<open>
  C6. \<open>zeeman_interaction\<close> returns the magnetic quantum number of the first state
  when the two states are equal, which for states means that all their quantum
  numbers are equal, and \<open>0.0\<close> for two distinct states.
\<close>

theorem zeeman_interaction_diagonal:
  "(s1 = s2 \<longrightarrow> zeeman_interaction s1 s2 = of_int (state_ML s1)) \<and>
   (s1 \<noteq> s2 \<longrightarrow> zeeman_interaction s1 s2 = 0) \<and>
   ((s1 :: state) = s2 \<longleftrightarrow>
      n s1 = n s2 \<and> n_eff s1 = n_eff s2 \<and> L s1 = L s2 \<and> state_ML s1 = state_ML s2)"
  by (auto simp: zeeman_interaction_def)

theorem zeeman_interaction_diagonal_witness:
  "zeeman_interaction \<lparr>n = 3, n_eff = 3, L = 2, state_ML = 2\<rparr> \<lparr>n = 3, n_eff = 3, L = 2, state_ML = 2\<rparr> = 2 \<and>
   zeeman_interaction \<lparr>n = 3, n_eff = 3, L = 2, state_ML = 2\<rparr> \<lparr>n = 3, n_eff = 3, L = 2, state_ML = 1\<rparr> = 0"
  using zeeman_interaction_diagonal[of "\<lparr>n = 3, n_eff = 3, L = 2, state_ML = 2\<rparr>" "\<lparr>n = 3, n_eff = 3, L = 2, state_ML = 2\<rparr>"]
    zeeman_interaction_diagonal[of "\<lparr>n = 3, n_eff = 3, L = 2, state_ML = 2\<rparr>" "\<lparr>n = 3, n_eff = 3, L = 2, state_ML = 1\<rparr>"]
  by simp

text \<open>
  C7 as stated (every kind other than Stark and Zeeman makes the build raise) fails
  for an empty basis: no term is requested, nothing raises, and the instance holds the
  empty matrix.
\<close>

theorem unknown_kind_empty_basis:
  "init failing_radial ''foo'' no_states no_kwargs =
     Inr (\<lparr>type = ''foo'', basis = no_states, num_states = 0, matrix = Some []\<rparr>, [])"
  by (simp add: init_def lower_foo Let_def populate_interaction_matrix_def no_kwargs_def
      kwargs_get_def no_states_def zeros_def)

text \<open>
  C7, amended. For a kind that is neither Stark nor Zeeman after lower-casing, a
  non-empty basis, and loading not requested, the build raises the exception
  \<^verbatim>\<open>Interaction term '...' is not recognised.\<close> at the first term, whatever the
  radial integral is, and the constructor returns no instance; when the method raises,
  the matrix it has just allocated is still all zeros. For an empty basis, with
  neither loading nor saving requested, no term is requested and nothing is raised,
  whatever the kind is: the constructor returns an instance that holds the empty
  matrix and has printed nothing.
\<close>

theorem unknown_kind_raises:
  "(lower matrix_type \<noteq> ''stark'' \<and> lower matrix_type \<noteq> ''zeeman'' \<and> states bas \<noteq> [] \<and>
    \<not> kwargs_get (load_matrices kw) False \<longrightarrow>
      init radial_overlap matrix_type bas kw = Inl (Exception (not_recognised (lower matrix_type))) \<and>
      populate_interaction_matrix radial_overlap (new_instance matrix_type bas) kw =
        ((new_instance matrix_type bas)\<lparr>matrix := Some (zeros (length (states bas)))\<rparr>, [],
         Some (Exception (not_recognised (lower matrix_type))))) \<and>
   (states bas = [] \<and> \<not> kwargs_get (load_matrices kw) False \<and>
    \<not> kwargs_get (save_matrices kw) False \<longrightarrow>
      init radial_overlap matrix_type bas kw =
        Inr (\<lparr>type = lower matrix_type, basis = bas, num_states = 0, matrix = Some []\<rparr>, []))"
proof (intro conjI impI)
  assume h: "lower matrix_type \<noteq> ''stark'' \<and> lower matrix_type \<noteq> ''zeeman'' \<and> states bas \<noteq> [] \<and>
   \<not> kwargs_get (load_matrices kw) False"
  let ?self = "new_instance matrix_type bas"
  let ?e = "Exception (not_recognised (lower matrix_type))"
  have t: "interaction_term radial_overlap ?self s1 s2 kw = Inl ?e" for s1 s2
    using h by (simp add: interaction_term_def new_instance_def)
  have k: "0 < length (states bas)" using h by simp
  have r: "rows_loop (\<lambda>s1 s2. interaction_term radial_overlap ?self s1 s2 kw) (states bas)
      (length (states bas)) [0..<length (states bas)] (zeros (length (states bas)))
      = (zeros (length (states bas)), Some ?e)"
    by (rule rows_loop_first_error[OF k k t])
  show p: "populate_interaction_matrix radial_overlap ?self kw =
       (?self\<lparr>matrix := Some (zeros (length (states bas)))\<rparr>, [], Some ?e)"
    using h r by (simp add: populate_interaction_matrix_def Let_def new_instance_def)
  show "init radial_overlap matrix_type bas kw = Inl ?e"
    using p by (simp add: init_eq)
next
  assume h: "states bas = [] \<and> \<not> kwargs_get (load_matrices kw) False \<and>
    \<not> kwargs_get (save_matrices kw) False"
  have "populate_interaction_matrix radial_overlap (new_instance matrix_type bas) kw =
      ((new_instance matrix_type bas)\<lparr>matrix := Some []\<rparr>, [], None)"
    using h by (simp add: populate_interaction_matrix_def Let_def new_instance_def zeros_def)
  then show "init radial_overlap matrix_type bas kw =
        Inr (\<lparr>type = lower matrix_type, basis = bas, num_states = 0, matrix = Some []\<rparr>, [])"
    using h by (simp add: init_eq new_instance_def)
qed

theorem unknown_kind_raises_witness:
  "init failing_radial ''foo'' two_states no_kwargs =
     Inl (Exception ''Interaction term 'foo' is not recognised.'') \<and>
   init failing_radial ''Stark'' no_states no_kwargs =
     Inr (\<lparr>type = ''stark'', basis = no_states, num_states = 0, matrix = Some []\<rparr>, [])"
proof -
  have a: "init failing_radial ''foo'' two_states no_kwargs =
     Inl (Exception ''Interaction term 'foo' is not recognised.'')"
    using unknown_kind_raises[of "''foo''" two_states no_kwargs failing_radial] lower_foo
    by (simp add: two_states_def no_kwargs_def kwargs_get_def not_recognised_def)
  have b: "init failing_radial ''Stark'' no_states no_kwargs =
     Inr (\<lparr>type = ''stark'', basis = no_states, num_states = 0, matrix = Some []\<rparr>, [])"
    using unknown_kind_raises[of "''Stark''" no_states no_kwargs failing_radial] lower_Stark
    by (simp add: no_states_def no_kwargs_def kwargs_get_def)
  show ?thesis using a b by blast
qed

text \<open>
  C8. On an instance that already holds a matrix, \<^verbatim>\<open>populate_interaction_matrix\<close>
  with \<^verbatim>\<open>cache_matrices\<close> absent or true leaves the instance as it is, prints the one
  line \<^verbatim>\<open>Using cached ... matrix\<close> and raises nothing, whatever the other options
  are: no term is computed and neither loading nor saving is reached.
\<close>

theorem cached_matrix_reused:
  "matrix self = Some m \<and> (cache_matrices kw = None \<or> cache_matrices kw = Some True) \<longrightarrow>
     populate_interaction_matrix radial_overlap self kw =
       (self, [''Using cached '' @ type self @ '' matrix''], None)"
proof
  assume h: "matrix self = Some m \<and> (cache_matrices kw = None \<or> cache_matrices kw = Some True)"
  then have "matrix self \<noteq> None" "kwargs_get (cache_matrices kw) True"
    by (auto simp: kwargs_get_def)
  then show "populate_interaction_matrix radial_overlap self kw =
       (self, [''Using cached '' @ type self @ '' matrix''], None)"
    by (rule populate_cached)
qed

theorem cached_matrix_reused_witness:
  "populate_interaction_matrix failing_radial held_instance load_and_save =
     (held_instance, [''Using cached stark matrix''], None)"
  using cached_matrix_reused[of held_instance "[[0, 7], [7, 0]]" load_and_save failing_radial]
  by (simp add: held_instance_def load_and_save_def no_kwargs_def)

text \<open>
  C9 as stated (all three operations produce the same key string) fails:
  \<^verbatim>\<open>save_matrix\<close> builds the name without the extension \<^verbatim>\<open>.npz\<close>, which the other
  two add themselves.
\<close>

theorem save_name_differs:
  "save_name str_int (\<lambda>a. ''0.0'') helium no_kwargs =
     ''./stark_n=2-15_L_max=4_S=0_ML=0_ML_max=1_angle_0.0'' \<and>
   load_name str_int (\<lambda>a. ''0.0'') helium no_kwargs =
     ''./stark_n=2-15_L_max=4_S=0_ML=0_ML_max=1_angle_0.0.npz'' \<and>
   check_name str_int (\<lambda>a. ''0.0'') helium no_kwargs =
     ''./stark_n=2-15_L_max=4_S=0_ML=0_ML_max=1_angle_0.0.npz'' \<and>
   save_name str_int (\<lambda>a. ''0.0'') helium no_kwargs \<noteq> load_name str_int (\<lambda>a. ''0.0'') helium no_kwargs"
  by (simp add: save_name_def load_name_def check_name_def filename_def Let_def helium_def
      no_kwargs_def kwargs_get_def helium_str)

text \<open>
  C9, amended. The name that \<^verbatim>\<open>load_matrix\<close> and \<^verbatim>\<open>check_matrix\<close> build is the
  directory followed by
  \<^verbatim>\<open><type>_n=<n_min>-<n_max>_L_max=<L_max>_S=<S>_ML=<ML>_ML_max=<ML_max>\<close>, then
  \<^verbatim>\<open>_angle_<field_angle>\<close> exactly when the type is \<^verbatim>\<open>stark\<close>, then \<^verbatim>\<open>.npz\<close>; it is
  the name \<^verbatim>\<open>save_matrix\<close> builds with \<^verbatim>\<open>.npz\<close> appended. Each operation acts on the
  file of its name and on no other: the check is true exactly when the disk has a file
  of that name; loading raises \<open>IOError\<close> with that name and prints nothing when there
  is none, and otherwise prints its two lines and returns the stored matrix, or raises
  \<open>ValueError\<close> when the stored entry is not a matrix; saving writes what the instance
  holds to the name it built, to which NumPy appends \<^verbatim>\<open>.npz\<close> unless the name already
  ends with it, and changes no other file. The name that saving builds does not end
  with \<^verbatim>\<open>.npz\<close> when its last component (the printed field angle for Stark, the
  printed last basis parameter otherwise) is not empty and does not end in \<^verbatim>\<open>z\<close>, as
  no printed number does. Whenever it does not end with \<^verbatim>\<open>.npz\<close>, the file written is
  the file the other two look for: after saving, the check is true, and loading
  returns the saved matrix when the instance held one and raises \<open>ValueError\<close> when it
  held none.
\<close>

theorem cache_filename:
  "load_name str fmt self kw =
     kwargs_get (matrices_dir kw) ''./'' @ type self @
       ''_n='' @ str (n_min (params (basis self))) @ ''-'' @ str (n_max (params (basis self))) @
       ''_L_max='' @ str (L_max (params (basis self))) @
       ''_S='' @ str (S (params (basis self))) @
       ''_ML='' @ str (params_ML (params (basis self))) @
       ''_ML_max='' @ str (ML_max (params (basis self))) @
       (if type self = ''stark'' then ''_angle_'' @ fmt (kwargs_get (field_angle kw) 0) else []) @
       ''.npz'' \<and>
   check_name str fmt self kw = load_name str fmt self kw \<and>
   load_name str fmt self kw = save_name str fmt self kw @ ''.npz'' \<and>
   check_matrix str fmt self kw d = (d (load_name str fmt self kw) \<noteq> None) \<and>
   (d (load_name str fmt self kw) = None \<longrightarrow>
      load_matrix str fmt self kw d = ([], Inl (IOError (load_name str fmt self kw)))) \<and>
   (d (load_name str fmt self kw) = Some (Some m) \<longrightarrow>
      load_matrix str fmt self kw d =
        ([''Loaded '' @ type self @ '' matrix from, '', [CHR 0x09] @ '' '' @ load_name str fmt self kw],
         Inr m)) \<and>
   (d (load_name str fmt self kw) = Some None \<longrightarrow>
      load_matrix str fmt self kw d =
        ([''Loaded '' @ type self @ '' matrix from, '', [CHR 0x09] @ '' '' @ load_name str fmt self kw],
         Inl ValueError)) \<and>
   fst (save_matrix str fmt self kw d) =
     d((if suffix ''.npz'' (save_name str fmt self kw) then save_name str fmt self kw
        else load_name str fmt self kw) \<mapsto> matrix self) \<and>
   (last_part str fmt self kw \<noteq> [] \<and> last (last_part str fmt self kw) \<noteq> CHR ''z'' \<longrightarrow>
      \<not> suffix ''.npz'' (save_name str fmt self kw)) \<and>
   (\<not> suffix ''.npz'' (save_name str fmt self kw) \<longrightarrow>
      fst (save_matrix str fmt self kw d) = d(load_name str fmt self kw \<mapsto> matrix self) \<and>
      check_matrix str fmt self kw (fst (save_matrix str fmt self kw d)) \<and>
      (matrix self = Some m \<longrightarrow>
         snd (load_matrix str fmt self kw (fst (save_matrix str fmt self kw d))) = Inr m) \<and>
      (matrix self = None \<longrightarrow>
         snd (load_matrix str fmt self kw (fst (save_matrix str fmt self kw d))) = Inl ValueError))"
proof -
  let ?load = "load_name str fmt self kw"
  let ?save = "save_name str fmt self kw"
  let ?lines = "[''Loaded '' @ type self @ '' matrix from, '', [CHR 0x09] @ '' '' @ ?load]"
  have name: "?load =
     kwargs_get (matrices_dir kw) ''./'' @ type self @
       ''_n='' @ str (n_min (params (basis self))) @ ''-'' @ str (n_max (params (basis self))) @
       ''_L_max='' @ str (L_max (params (basis self))) @
       ''_S='' @ str (S (params (basis self))) @
       ''_ML='' @ str (params_ML (params (basis self))) @
       ''_ML_max='' @ str (ML_max (params (basis self))) @
       (if type self = ''stark'' then ''_angle_'' @ fmt (kwargs_get (field_angle kw) 0) else []) @
       ''.npz''"
    by (simp add: load_name_def filename_def Let_def)
  have chk: "check_name str fmt self kw = ?load" by (rule check_name_eq)
  have ext: "?load = ?save @ ''.npz''" by (rule load_name_eq)
  have c: "check_matrix str fmt self kw e = (e ?load \<noteq> None)" for e
    by (simp add: check_matrix_def check_name_eq)
  have l0: "load_matrix str fmt self kw e = ([], Inl (IOError ?load))" if "e ?load = None" for e
    using that by (simp add: load_matrix_def Let_def)
  have l1: "load_matrix str fmt self kw e = (?lines, Inr x)" if "e ?load = Some (Some x)" for e x
    using that by (simp add: load_matrix_def Let_def)
  have l2: "load_matrix str fmt self kw e = (?lines, Inl ValueError)" if "e ?load = Some None" for e
    using that by (simp add: load_matrix_def Let_def)
  have sv: "fst (save_matrix str fmt self kw d) =
      d((if suffix ''.npz'' ?save then ?save else ?load) \<mapsto> matrix self)"
    by (simp add: save_matrix_def savez_compressed_def Let_def load_name_eq)
  have lp: "\<not> suffix ''.npz'' ?save"
    if "last_part str fmt self kw \<noteq> [] \<and> last (last_part str fmt self kw) \<noteq> CHR ''z''"
  proof -
    obtain pre where pre: "?save = pre @ last_part str fmt self kw"
      using save_name_last by blast
    show ?thesis unfolding pre using that by (simp add: not_npz)
  qed
  have rt: "fst (save_matrix str fmt self kw d) = d(?load \<mapsto> matrix self) \<and>
      check_matrix str fmt self kw (fst (save_matrix str fmt self kw d)) \<and>
      (matrix self = Some m \<longrightarrow>
         snd (load_matrix str fmt self kw (fst (save_matrix str fmt self kw d))) = Inr m) \<and>
      (matrix self = None \<longrightarrow>
         snd (load_matrix str fmt self kw (fst (save_matrix str fmt self kw d))) = Inl ValueError)"
    if ns: "\<not> suffix ''.npz'' ?save"
  proof -
    have w: "fst (save_matrix str fmt self kw d) = d(?load \<mapsto> matrix self)"
      using sv ns by simp
    have at: "(d(?load \<mapsto> matrix self)) ?load = Some (matrix self)" by simp
    have c': "check_matrix str fmt self kw (d(?load \<mapsto> matrix self))"
      using c[of "d(?load \<mapsto> matrix self)"] at by simp
    have a: "snd (load_matrix str fmt self kw (d(?load \<mapsto> matrix self))) = Inr m"
      if "matrix self = Some m"
      using l1[of "d(?load \<mapsto> matrix self)" m] at that by simp
    have b: "snd (load_matrix str fmt self kw (d(?load \<mapsto> matrix self))) = Inl ValueError"
      if "matrix self = None"
      using l2[of "d(?load \<mapsto> matrix self)"] at that by simp
    show ?thesis unfolding w using c' a b by blast
  qed
  show ?thesis
    using name chk ext c[of d] l0[of d] l1[of d m] l2[of d] sv lp rt by blast
qed

theorem cache_filename_witness:
  "load_name str_int (\<lambda>a. ''0.0'') (helium\<lparr>type := ''zeeman''\<rparr>) no_kwargs =
     ''./zeeman_n=2-15_L_max=4_S=0_ML=0_ML_max=1.npz'' \<and>
   \<not> check_matrix str_int (\<lambda>a. ''0.0'') helium no_kwargs Map.empty \<and>
   load_matrix str_int (\<lambda>a. ''0.0'') helium no_kwargs Map.empty =
     ([], Inl (IOError ''./stark_n=2-15_L_max=4_S=0_ML=0_ML_max=1_angle_0.0.npz'')) \<and>
   check_matrix str_int (\<lambda>a. ''0.0'') helium no_kwargs
     (fst (save_matrix str_int (\<lambda>a. ''0.0'') helium no_kwargs Map.empty)) \<and>
   snd (load_matrix str_int (\<lambda>a. ''0.0'') helium no_kwargs
     (fst (save_matrix str_int (\<lambda>a. ''0.0'') helium no_kwargs Map.empty))) = Inr [[0, 3], [3, 0]] \<and>
   snd (load_matrix str_int (\<lambda>a. ''0.0'') (helium\<lparr>matrix := None\<rparr>) no_kwargs
     (fst (save_matrix str_int (\<lambda>a. ''0.0'') (helium\<lparr>matrix := None\<rparr>) no_kwargs Map.empty)))
     = Inl ValueError"
proof -
  note stark = cache_filename[of str_int "\<lambda>a. ''0.0''" helium no_kwargs Map.empty "[[0, 3], [3, 0]]"]
  note zeeman = cache_filename[of str_int "\<lambda>a. ''0.0''" "helium\<lparr>type := ''zeeman''\<rparr>" no_kwargs Map.empty]
  note bare = cache_filename[of str_int "\<lambda>a. ''0.0''" "helium\<lparr>matrix := None\<rparr>" no_kwargs Map.empty]
  have lp: "last_part str_int (\<lambda>a. ''0.0'') helium no_kwargs \<noteq> [] \<and>
      last (last_part str_int (\<lambda>a. ''0.0'') helium no_kwargs) \<noteq> CHR ''z''"
    by (simp add: last_part_def helium_def)
  have lp': "last_part str_int (\<lambda>a. ''0.0'') (helium\<lparr>matrix := None\<rparr>) no_kwargs \<noteq> [] \<and>
      last (last_part str_int (\<lambda>a. ''0.0'') (helium\<lparr>matrix := None\<rparr>) no_kwargs) \<noteq> CHR ''z''"
    by (simp add: last_part_def helium_def)
  have ns: "\<not> suffix ''.npz'' (save_name str_int (\<lambda>a. ''0.0'') helium no_kwargs)"
    using stark lp by blast
  have ns': "\<not> suffix ''.npz'' (save_name str_int (\<lambda>a. ''0.0'') (helium\<lparr>matrix := None\<rparr>) no_kwargs)"
    using bare lp' by blast
  have nm: "load_name str_int (\<lambda>a. ''0.0'') helium no_kwargs =
     ''./stark_n=2-15_L_max=4_S=0_ML=0_ML_max=1_angle_0.0.npz''"
    using stark by (simp add: helium_def no_kwargs_def kwargs_get_def helium_str)
  have a: "load_name str_int (\<lambda>a. ''0.0'') (helium\<lparr>type := ''zeeman''\<rparr>) no_kwargs =
     ''./zeeman_n=2-15_L_max=4_S=0_ML=0_ML_max=1.npz''"
    using zeeman by (simp add: helium_def no_kwargs_def kwargs_get_def helium_str)
  have b: "\<not> check_matrix str_int (\<lambda>a. ''0.0'') helium no_kwargs Map.empty"
    using stark by simp
  have c: "load_matrix str_int (\<lambda>a. ''0.0'') helium no_kwargs Map.empty =
     ([], Inl (IOError ''./stark_n=2-15_L_max=4_S=0_ML=0_ML_max=1_angle_0.0.npz''))"
    using stark unfolding nm by simp
  have d: "check_matrix str_int (\<lambda>a. ''0.0'') helium no_kwargs
     (fst (save_matrix str_int (\<lambda>a. ''0.0'') helium no_kwargs Map.empty))"
    using stark ns by blast
  have m: "matrix helium = Some [[0, 3], [3, 0]]" by (simp add: helium_def)
  have e: "snd (load_matrix str_int (\<lambda>a. ''0.0'') helium no_kwargs
     (fst (save_matrix str_int (\<lambda>a. ''0.0'') helium no_kwargs Map.empty))) = Inr [[0, 3], [3, 0]]"
    using stark ns m by blast
  have f: "snd (load_matrix str_int (\<lambda>a. ''0.0'') (helium\<lparr>matrix := None\<rparr>) no_kwargs
     (fst (save_matrix str_int (\<lambda>a. ''0.0'') (helium\<lparr>matrix := None\<rparr>) no_kwargs Map.empty)))
     = Inl ValueError"
  proof -
    have "matrix (helium\<lparr>matrix := None\<rparr>) = None" by simp
    then show ?thesis using bare ns' by blast
  qed
  show ?thesis using a b c d e f by blast
qed

text \<open>
  C10. \<open>stark_interaction\<close> of a state with itself is exactly \<open>0.0\<close>, whatever the
  radial integral is; so every diagonal entry of a Stark matrix is \<open>0.0\<close> after a
  build, and after any call of \<^verbatim>\<open>populate_interaction_matrix\<close> that computed the
  matrix.
\<close>

theorem stark_diagonal_zero:
  "stark_interaction radial_overlap s s kw = Inr 0 \<and>
   (init radial_overlap matrix_type bas kw = Inr (self', out) \<and> lower matrix_type = ''stark'' \<longrightarrow>
      (\<exists>m. matrix self' = Some m \<and> (\<forall>i<length (states bas). m ! i ! i = 0))) \<and>
   (populate_interaction_matrix radial_overlap self kw = (self', out, None) \<and> type self = ''stark'' \<and>
      (matrix self = None \<or> cache_matrices kw = Some False) \<longrightarrow>
      (\<exists>m. matrix self' = Some m \<and> (\<forall>i<num_states self. m ! i ! i = 0)))"
proof -
  have diag: "stark_interaction radial_overlap s s kw = Inr 0" for s
    by (simp add: stark_interaction_def)
  have pop: "\<exists>m. matrix b' = Some m \<and> (\<forall>i<num_states b. m ! i ! i = 0)"
    if p: "populate_interaction_matrix radial_overlap b kw = (b', out, None)"
      and t: "type b = ''stark''"
      and c: "matrix b = None \<or> kwargs_get (cache_matrices kw) True = False"
    for b b' :: "'a interaction_matrix"
  proof -
    from populate_computed[OF c p] obtain m where
      s: "b' = b\<lparr>matrix := Some m\<rparr>" and
      r: "rows_loop (\<lambda>s1 s2. interaction_term radial_overlap b s1 s2 kw) (states (basis b))
             (num_states b) [0..<num_states b] (zeros (num_states b)) = (m, None)"
      by blast
    have "m ! i ! i = 0" if "i < num_states b" for i
    proof -
      have "interaction_term radial_overlap b (states (basis b) ! i) (states (basis b) ! i) kw = Inr (m ! i ! i)"
        using rows_loop_full(2)[OF r, of i i] that by simp
      then show ?thesis using t diag by (simp add: interaction_term_def)
    qed
    then show ?thesis using s by simp
  qed
  have a: "init radial_overlap matrix_type bas kw = Inr (self', out) \<and> lower matrix_type = ''stark'' \<longrightarrow>
      (\<exists>m. matrix self' = Some m \<and> (\<forall>i<length (states bas). m ! i ! i = 0))"
  proof
    assume h: "init radial_overlap matrix_type bas kw = Inr (self', out) \<and> lower matrix_type = ''stark''"
    then have "populate_interaction_matrix radial_overlap (new_instance matrix_type bas) kw = (self', out, None)"
      by (simp add: init_Inr_iff)
    from pop[OF this] h show "\<exists>m. matrix self' = Some m \<and> (\<forall>i<length (states bas). m ! i ! i = 0)"
      by (simp add: new_instance_def)
  qed
  have b: "populate_interaction_matrix radial_overlap self kw = (self', out, None) \<and> type self = ''stark'' \<and>
      (matrix self = None \<or> cache_matrices kw = Some False) \<longrightarrow>
      (\<exists>m. matrix self' = Some m \<and> (\<forall>i<num_states self. m ! i ! i = 0))"
  proof
    assume h: "populate_interaction_matrix radial_overlap self kw = (self', out, None) \<and> type self = ''stark'' \<and>
      (matrix self = None \<or> cache_matrices kw = Some False)"
    then have c: "matrix self = None \<or> kwargs_get (cache_matrices kw) True = False"
      by (auto simp: kwargs_get_def)
    from pop[OF _ _ c] h show "\<exists>m. matrix self' = Some m \<and> (\<forall>i<num_states self. m ! i ! i = 0)"
      by blast
  qed
  show ?thesis using diag a b by blast
qed

theorem stark_diagonal_zero_witness:
  "stark_interaction failing_radial \<lparr>n = 10, n_eff = 10.0, L = 1, state_ML = 0\<rparr>
      \<lparr>n = 10, n_eff = 10.0, L = 1, state_ML = 0\<rparr> no_kwargs = Inr 0 \<and>
   (\<exists>self' out m. init const_radial ''Stark'' two_states no_kwargs = Inr (self', out) \<and>
      matrix self' = Some m \<and> m ! 0 ! 0 = 0 \<and> m ! 1 ! 1 = 0)"
proof -
  have nl: "\<not> kwargs_get (load_matrices no_kwargs) False" "\<not> kwargs_get (save_matrices no_kwargs) False"
    by (simp_all add: no_kwargs_def kwargs_get_def)
  have len: "length (states two_states) = 2" by (simp add: two_states_def)
  obtain s' o' where i: "init const_radial ''Stark'' two_states no_kwargs = Inr (s', o')"
    using populate_total[of "new_instance ''Stark'' two_states" const_radial no_kwargs]
      lower_Stark const_radial_total nl
    by (auto simp: init_Inr_iff new_instance_def)
  have "\<exists>m. matrix s' = Some m \<and> (\<forall>i<length (states two_states). m ! i ! i = 0)"
    using stark_diagonal_zero[of const_radial _ no_kwargs "''Stark''" two_states s' o'] i lower_Stark
    by blast
  then obtain m where "matrix s' = Some m" "\<forall>i<2. m ! i ! i = 0"
    unfolding len by blast
  then have "matrix s' = Some m \<and> m ! 0 ! 0 = 0 \<and> m ! 1 ! 1 = 0" by simp
  moreover have "stark_interaction failing_radial \<lparr>n = 10, n_eff = 10.0, L = 1, state_ML = 0\<rparr>
      \<lparr>n = 10, n_eff = 10.0, L = 1, state_ML = 0\<rparr> no_kwargs = Inr 0"
    using stark_diagonal_zero[of failing_radial "\<lparr>n = 10, n_eff = 10.0, L = 1, state_ML = 0\<rparr>" no_kwargs]
    by blast
  ultimately show ?thesis using i by blast
qed

end
